theory Spec2Isabelle
  imports Main
begin

section \<open>JavaScript values and the console\<close>

text \<open>
  The scripts handle plain data: the rows the ORM client returns, the object literals they
  pass to it, and the errors it raises. \<open>json\<close> is that data. \<open>JError name message\<close> is an
  \<open>Error\<close> instance, \<open>JDate ms\<close> a \<open>Date\<close> (milliseconds since the epoch). An object is its
  list of own properties in source order; a string is the list of its code units.
\<close>

datatype json =
    JUndefined
  | JNull
  | JBool bool
  | JNum int
  | JStr string
  | JDate int
  | JError string string
  | JArr "json list"
  | JObj "(string \<times> json) list"

text \<open>
  An argument of \<open>console.log\<close> or \<open>console.error\<close> is a value, or a template literal: its
  literal pieces and the values substituted between them (the number-to-text conversion of
  the runtime is not spelled out).
\<close>

datatype piece = Lit string | Sub json

datatype arg = Val json | Template "piece list"

section \<open>The generated ORM client\<close>

text \<open>
  \<open>./generated/prisma/client.js\<close> is not among the sources. The client is therefore a
  parameter of every script: a record of its methods, each a function of the database
  \<open>'w\<close> behind it that either rejects (\<open>Inl\<close>, with the value raised) or resolves
  (\<open>Inr\<close>), and leaves a new database. The result types are those of the generated
  client: a row, a list of rows, a number, and the batch payload \<open>{ count }\<close>.
\<close>

type_synonym ('w, 'a) op = "'w \<Rightarrow> (json + 'a) \<times> 'w"

record 'w delegate =
  create :: "json \<Rightarrow> ('w, json) op"
  findMany :: "json \<Rightarrow> ('w, json list) op"
  findUnique :: "json \<Rightarrow> ('w, json) op"
  update :: "json \<Rightarrow> ('w, json) op"
  delete :: "json \<Rightarrow> ('w, json) op"
  count :: "json \<Rightarrow> ('w, int) op"
  upsert :: "json \<Rightarrow> ('w, json) op"
  updateMany :: "json \<Rightarrow> ('w, int) op"
  groupBy :: "json \<Rightarrow> ('w, json list) op"

datatype receiver = User | Post | Client

datatype orm_method =
    Create | FindMany | FindUnique | Update | Delete | Count | Upsert | UpdateMany | GroupBy
  | Transaction | Connect | Disconnect

text \<open>
  \<open>Call r m a\<close> is the method call \<open>prisma.r.m(a)\<close> (for \<open>Client\<close>: \<open>prisma.$m(a)\<close>);
  \<open>Batch cs\<close> is \<open>prisma.$transaction([...])\<close> on the promises of the calls \<open>cs\<close>.
\<close>

datatype call = Call receiver orm_method json | Batch "call list"

fun method_of :: "call \<Rightarrow> orm_method" where
  "method_of (Call r m a) = m"
| "method_of (Batch cs) = Transaction"

record 'w prisma_client =
  user :: "'w delegate"
  post :: "'w delegate"
  transaction :: "call list \<Rightarrow> ('w, json list) op"
  connect :: "('w, unit) op"
  disconnect :: "('w, unit) op"

section \<open>Statements, completions and the trace of a run\<close>

text \<open>
  What a run does is recorded as a trace: the console lines, and for every ORM call the
  moment it is made (\<open>Invoke\<close>) and the moment its promise settles under an \<open>await\<close>
  (\<open>Resolved\<close>, or \<open>Rejected\<close> with the value raised).
\<close>

datatype event =
    ConsoleLog "arg list"
  | ConsoleError "arg list"
  | Invoke call
  | Resolved call
  | Rejected call json

record 'w state =
  world :: 'w
  trace :: "event list"

text \<open>
  A statement completes normally, by \<open>return;\<close>, by throwing, or not at all because
  \<open>process.exit(n)\<close> ended the process (\<open>Halt n\<close>).
\<close>

datatype 'a completion = Normal 'a | Return | Throw json | Halt int

type_synonym ('w, 'a) js = "'w state \<Rightarrow> 'a completion \<times> 'w state"

definition ret :: "'a \<Rightarrow> ('w, 'a) js" where
  "ret v s = (Normal v, s)"

definition return_stmt :: "('w, 'a) js" where
  "return_stmt s = (Return, s)"

definition throw :: "json \<Rightarrow> ('w, 'a) js" where
  "throw e s = (Throw e, s)"

definition process_exit :: "int \<Rightarrow> ('w, 'a) js" where
  "process_exit n s = (Halt n, s)"

definition bnd :: "('w, 'a) js \<Rightarrow> ('a \<Rightarrow> ('w, 'b) js) \<Rightarrow> ('w, 'b) js" where
  "bnd m f s =
     (case m s of
        (Normal v, s') \<Rightarrow> f v s'
      | (Return, s') \<Rightarrow> (Return, s')
      | (Throw e, s') \<Rightarrow> (Throw e, s')
      | (Halt n, s') \<Rightarrow> (Halt n, s'))"

definition seq :: "('w, unit) js \<Rightarrow> ('w, 'b) js \<Rightarrow> ('w, 'b) js" where
  "seq m n = bnd m (\<lambda>_. n)"

text \<open>A block \<open>{ s1; s2; ... }\<close> of statements.\<close>

primrec block :: "('w, unit) js list \<Rightarrow> ('w, unit) js" where
  "block [] = ret ()"
| "block (m # ms) = seq m (block ms)"

definition try_catch :: "('w, 'a) js \<Rightarrow> (json \<Rightarrow> ('w, 'a) js) \<Rightarrow> ('w, 'a) js" where
  "try_catch m h s =
     (case m s of
        (Throw e, s') \<Rightarrow> h e s'
      | (r, s') \<Rightarrow> (r, s'))"

definition emit :: "event \<Rightarrow> ('w, unit) js" where
  "emit ev s = (Normal (), s\<lparr>trace := trace s @ [ev]\<rparr>)"

definition console_log :: "arg list \<Rightarrow> ('w, unit) js" where
  "console_log as = emit (ConsoleLog as)"

definition console_error :: "arg list \<Rightarrow> ('w, unit) js" where
  "console_error as = emit (ConsoleError as)"

text \<open>\<open>await prisma.r.m(a)\<close>: the call is made and the script waits until it settles.\<close>

definition await :: "call \<Rightarrow> ('w, 'a) op \<Rightarrow> ('w, 'a) js" where
  "await c f s =
     (case f (world s) of
        (Inl e, w') \<Rightarrow> (Throw e, \<lparr>world = w', trace = trace s @ [Invoke c, Rejected c e]\<rparr>)
      | (Inr v, w') \<Rightarrow> (Normal v, \<lparr>world = w', trace = trace s @ [Invoke c, Resolved c]\<rparr>))"

text \<open>
  \<open>prisma.r.m(a)\<close> without \<open>await\<close>: the call is made and its promise kept as a value, to
  be handed to \<open>$transaction\<close>.
\<close>

definition pending :: "call \<Rightarrow> ('w, call) js" where
  "pending c = seq (emit (Invoke c)) (ret c)"

text \<open>
  Calling a function: \<open>return;\<close> and falling off the end both give \<open>undefined\<close>. For an
  \<open>async\<close> function the completion is how its promise settles.
\<close>

definition call_fn :: "('w, 'a) js \<Rightarrow> ('w, unit) js" where
  "call_fn body s =
     (case body s of
        (Normal v, s') \<Rightarrow> (Normal (), s')
      | (Return, s') \<Rightarrow> (Normal (), s')
      | (Throw e, s') \<Rightarrow> (Throw e, s')
      | (Halt n, s') \<Rightarrow> (Halt n, s'))"

text \<open>
  \<open>p.catch(h)\<close> and \<open>p.finally(f)\<close>. A handler runs only when the promise before it
  settles; once \<open>process.exit\<close> has run, nothing after it does.
\<close>

definition promise_catch :: "('w, unit) js \<Rightarrow> (json \<Rightarrow> ('w, unit) js) \<Rightarrow> ('w, unit) js" where
  "promise_catch p h s =
     (case p s of
        (Throw e, s') \<Rightarrow> call_fn (h e) s'
      | (r, s') \<Rightarrow> (r, s'))"

definition promise_finally :: "('w, unit) js \<Rightarrow> ('w, unit) js \<Rightarrow> ('w, unit) js" where
  "promise_finally p f s =
     (case p s of
        (Halt n, s') \<Rightarrow> (Halt n, s')
      | (r, s') \<Rightarrow>
          (case call_fn f s' of
             (Normal u, s'') \<Rightarrow> (r, s'')
           | (c, s'') \<Rightarrow> (c, s'')))"

text \<open>
  The exit status of the process: the argument of \<open>process.exit\<close>; 0 when the promise
  chain settles fulfilled and the event loop drains; 1 when its last promise rejects with
  no handler left (the default of Node.js 15 and later).
\<close>

fun exit_status :: "'a completion \<Rightarrow> int" where
  "exit_status (Normal v) = 0"
| "exit_status Return = 0"
| "exit_status (Throw e) = 1"
| "exit_status (Halt n) = n"

definition run :: "('w, 'a) js \<Rightarrow> 'w \<Rightarrow> 'a completion \<times> 'w state" where
  "run m w = m \<lparr>world = w, trace = []\<rparr>"

definition outcome :: "('w, 'a) js \<Rightarrow> 'w \<Rightarrow> 'a completion" where
  "outcome m w = fst (run m w)"

definition events :: "('w, 'a) js \<Rightarrow> 'w \<Rightarrow> event list" where
  "events m w = trace (snd (run m w))"

definition final_world :: "('w, 'a) js \<Rightarrow> 'w \<Rightarrow> 'w" where
  "final_world m w = world (snd (run m w))"

section \<open>Reading properties, iterating, truthiness\<close>

definition type_error :: "string \<Rightarrow> json" where
  "type_error msg = JError ''TypeError'' msg"

text \<open>
  \<open>v.p\<close> for the property names the scripts read (\<open>name\<close>, \<open>email\<close>, \<open>posts\<close>,
  \<open>title\<close>, \<open>published\<close>, \<open>id\<close>, \<open>authorId\<close>, \<open>_count\<close>, \<open>length\<close>): reading a
  property of \<open>undefined\<close> or \<open>null\<close> throws a TypeError, a missing property is
  \<open>undefined\<close>, and of two properties with one name the later one counts.
\<close>

fun get :: "json \<Rightarrow> string \<Rightarrow> ('w, json) js" where
  "get JUndefined p =
     throw (type_error (''Cannot read properties of undefined (reading '' @ [CHR 0x27] @ p @
                        [CHR 0x27] @ '')''))"
| "get JNull p =
     throw (type_error (''Cannot read properties of null (reading '' @ [CHR 0x27] @ p @
                        [CHR 0x27] @ '')''))"
| "get (JObj kvs) p = ret (case map_of (rev kvs) p of None \<Rightarrow> JUndefined | Some v \<Rightarrow> v)"
| "get (JArr xs) p = ret (if p = ''length'' then JNum (int (length xs)) else JUndefined)"
| "get (JStr s) p = ret (if p = ''length'' then JNum (int (length s)) else JUndefined)"
| "get (JError n m) p =
     ret (if p = ''name'' then JStr n else if p = ''message'' then JStr m else JUndefined)"
| "get (JBool b) p = ret JUndefined"
| "get (JNum n) p = ret JUndefined"
| "get (JDate d) p = ret JUndefined"

text \<open>The loop over an array the client returned (\<open>for ... of\<close>, \<open>forEach\<close>).\<close>

primrec each :: "'a list \<Rightarrow> ('a \<Rightarrow> ('w, unit) js) \<Rightarrow> ('w, unit) js" where
  "each [] body = ret ()"
| "each (x # xs) body = seq (body x) (each xs body)"

text \<open>
  \<open>for (const x of v)\<close> on a value read from a row: arrays and strings are iterable, the
  other values are not, and the TypeError names the expression iterated (\<open>src\<close>, its
  source text). The message of a property read quotes the property name.
\<close>

fun for_of :: "string \<Rightarrow> json \<Rightarrow> (json \<Rightarrow> ('w, unit) js) \<Rightarrow> ('w, unit) js" where
  "for_of src (JArr xs) body = each xs body"
| "for_of src (JStr s) body = each (map (\<lambda>c. JStr [c]) s) body"
| "for_of src v body = throw (type_error (src @ '' is not iterable''))"

fun truthy :: "json \<Rightarrow> bool" where
  "truthy JUndefined = False"
| "truthy JNull = False"
| "truthy (JBool b) = b"
| "truthy (JNum n) = (n \<noteq> 0)"
| "truthy (JStr s) = (s \<noteq> [])"
| "truthy v = True"

section \<open>The environment and the construction of the client\<close>

text \<open>
  \<open>process.env\<close> after \<open>import 'dotenv/config'\<close>: a map from names to strings; reading a
  name that is not set gives \<open>undefined\<close>. The non-null assertion \<open>e!\<close> exists for the
  type checker only and evaluates to \<open>e\<close>.
\<close>

definition process_env :: "(string \<rightharpoonup> string) \<Rightarrow> string \<Rightarrow> json" where
  "process_env env k = (case env k of None \<Rightarrow> JUndefined | Some v \<Rightarrow> JStr v)"

definition non_null :: "json \<Rightarrow> json" where
  "non_null v = v"

text \<open>The options of \<open>new PrismaClient(...)\<close> in queries.ts, lines 4-6.\<close>

definition queries_options :: "(string \<rightharpoonup> string) \<Rightarrow> json" where
  "queries_options env = JObj [(''accelerateUrl'', non_null (process_env env ''DATABASE_URL''))]"

text \<open>The same in example-queries.ts, lines 4-6.\<close>

definition example_queries_options :: "(string \<rightharpoonup> string) \<Rightarrow> json" where
  "example_queries_options env =
     JObj [(''accelerateUrl'', non_null (process_env env ''DATABASE_URL''))]"

text \<open>The same in the advanced examples (part_001, lines 462-464).\<close>

definition advanced_options :: "(string \<rightharpoonup> string) \<Rightarrow> json" where
  "advanced_options env = JObj [(''accelerateUrl'', non_null (process_env env ''DATABASE_URL''))]"

text \<open>The verification script (part_000, lines 4-8) chooses between two option objects.\<close>

definition verify_options :: "(string \<rightharpoonup> string) \<Rightarrow> json" where
  "verify_options env =
     (if truthy (process_env env ''DATABASE_URL'')
      then JObj [(''accelerateUrl'', process_env env ''DATABASE_URL'')]
      else JObj [(''accelerateUrl'', JStr [])])"

text \<open>The \<open>accelerateUrl\<close> of an options object.\<close>

definition accelerateUrl :: "json \<Rightarrow> json" where
  "accelerateUrl opts =
     (case opts of
        JObj kvs \<Rightarrow> (case map_of (rev kvs) ''accelerateUrl'' of None \<Rightarrow> JUndefined | Some v \<Rightarrow> v)
      | _ \<Rightarrow> JUndefined)"

section \<open>The calls the scripts make\<close>

definition user_create :: "'w prisma_client \<Rightarrow> json \<Rightarrow> ('w, json) js" where
  "user_create prisma a = await (Call User Create a) (create (user prisma) a)"

definition user_findMany :: "'w prisma_client \<Rightarrow> json \<Rightarrow> ('w, json list) js" where
  "user_findMany prisma a = await (Call User FindMany a) (findMany (user prisma) a)"

definition user_findUnique :: "'w prisma_client \<Rightarrow> json \<Rightarrow> ('w, json) js" where
  "user_findUnique prisma a = await (Call User FindUnique a) (findUnique (user prisma) a)"

definition user_update :: "'w prisma_client \<Rightarrow> json \<Rightarrow> ('w, json) js" where
  "user_update prisma a = await (Call User Update a) (update (user prisma) a)"

definition user_delete :: "'w prisma_client \<Rightarrow> json \<Rightarrow> ('w, json) js" where
  "user_delete prisma a = await (Call User Delete a) (delete (user prisma) a)"

definition user_count :: "'w prisma_client \<Rightarrow> json \<Rightarrow> ('w, int) js" where
  "user_count prisma a = await (Call User Count a) (count (user prisma) a)"

definition user_upsert :: "'w prisma_client \<Rightarrow> json \<Rightarrow> ('w, json) js" where
  "user_upsert prisma a = await (Call User Upsert a) (upsert (user prisma) a)"

definition post_findMany :: "'w prisma_client \<Rightarrow> json \<Rightarrow> ('w, json list) js" where
  "post_findMany prisma a = await (Call Post FindMany a) (findMany (post prisma) a)"

definition post_count :: "'w prisma_client \<Rightarrow> json \<Rightarrow> ('w, int) js" where
  "post_count prisma a = await (Call Post Count a) (count (post prisma) a)"

definition post_updateMany :: "'w prisma_client \<Rightarrow> json \<Rightarrow> ('w, int) js" where
  "post_updateMany prisma a = await (Call Post UpdateMany a) (updateMany (post prisma) a)"

definition post_groupBy :: "'w prisma_client \<Rightarrow> json \<Rightarrow> ('w, json list) js" where
  "post_groupBy prisma a = await (Call Post GroupBy a) (groupBy (post prisma) a)"

definition client_transaction :: "'w prisma_client \<Rightarrow> call list \<Rightarrow> ('w, json list) js" where
  "client_transaction prisma ps = await (Batch ps) (transaction prisma ps)"

definition client_connect :: "'w prisma_client \<Rightarrow> ('w, unit) js" where
  "client_connect prisma = await (Call Client Connect JUndefined) (connect prisma)"

definition client_disconnect :: "'w prisma_client \<Rightarrow> ('w, unit) js" where
  "client_disconnect prisma = await (Call Client Disconnect JUndefined) (disconnect prisma)"

section \<open>queries.ts\<close>

definition queries_main :: "'w prisma_client \<Rightarrow> ('w, unit) js" where
  "queries_main prisma =
     seq (console_log [Val (JStr ''Seeding database...'')])
    (bnd (user_create prisma
            (JObj [(''data'', JObj
               [(''email'', JStr ''alice@prisma.io''),
                (''name'', JStr ''Alice''),
                (''posts'', JObj [(''create'', JArr
                   [JObj [(''title'', JStr ''My first post''),
                          (''content'', JStr ''Hello World!''),
                          (''published'', JBool True)],
                    JObj [(''title'', JStr ''Draft post''),
                          (''content'', JStr ''This is a draft''),
                          (''published'', JBool False)]])])])]))
       (\<lambda>alice.
     bnd (user_create prisma
            (JObj [(''data'', JObj
               [(''email'', JStr ''bob@prisma.io''),
                (''name'', JStr ''Bob''),
                (''posts'', JObj [(''create'', JObj
                   [(''title'', JStr ''Bob's first post''),
                    (''content'', JStr ''Nice to meet you!''),
                    (''published'', JBool True)])])])]))
       (\<lambda>bob.
     seq (console_log [Val (JStr ''Created users:''), Val (JObj [(''alice'', alice), (''bob'', bob)])])
    (bnd (user_findMany prisma (JObj [(''include'', JObj [(''posts'', JBool True)])]))
       (\<lambda>allUsers.
     seq (console_log [Val (JStr ''All users:''), Val (JArr allUsers)])
    (bnd (post_findMany prisma
            (JObj [(''where'', JObj [(''published'', JBool True)]),
                   (''include'', JObj [(''author'', JBool True)])]))
       (\<lambda>publishedPosts.
     console_log [Val (JStr ''Published posts:''), Val (JArr publishedPosts)])))))))"

text \<open>
  Lines 55-62: \<open>main().catch((e) => { console.error(e); process.exit(1); })
  .finally(async () => { await prisma.$disconnect(); })\<close>.
\<close>

definition queries_script :: "'w prisma_client \<Rightarrow> ('w, unit) js" where
  "queries_script prisma =
     promise_finally
       (promise_catch (call_fn (queries_main prisma))
          (\<lambda>e. block [console_error [Val e], process_exit 1]))
       (client_disconnect prisma)"

definition queries_ts :: "(json \<Rightarrow> 'w prisma_client) \<Rightarrow> (string \<rightharpoonup> string) \<Rightarrow> ('w, unit) js" where
  "queries_ts PrismaClient env = queries_script (PrismaClient (queries_options env))"

section \<open>example-queries.ts\<close>

definition example_queries_main :: "'w prisma_client \<Rightarrow> ('w, unit) js" where
  "example_queries_main prisma =
     seq (console_log [Val (JStr ''=== PRISMA QUERY EXAMPLES ===\<newline>'')])
    (seq (console_log [Val (JStr ''1. CREATE - Adding new user and post...'')])
    (bnd (user_create prisma
            (JObj [(''data'', JObj
               [(''email'', JStr ''charlie@prisma.io''),
                (''name'', JStr ''Charlie''),
                (''posts'', JObj [(''create'', JObj
                   [(''title'', JStr ''Charlie introduction''),
                    (''content'', JStr ''Hi everyone!''),
                    (''published'', JBool True)])])])]))
       (\<lambda>newUser.
     seq (console_log [Val (JStr ''   Created:''), Val newUser])
    (seq (console_log [Val (JStr ''\<newline>2. READ - Finding users...'')])
    (bnd (user_findMany prisma JUndefined)
       (\<lambda>allUsers.
     seq (console_log [Val (JStr ''   All users:''), Val (JArr allUsers)])
    (bnd (user_findUnique prisma
            (JObj [(''where'', JObj [(''email'', JStr ''alice@prisma.io'')]),
                   (''include'', JObj [(''posts'', JBool True)])]))
       (\<lambda>specificUser.
     seq (console_log [Val (JStr ''   Alice with posts:''), Val specificUser])
    (bnd (post_findMany prisma
            (JObj [(''where'', JObj [(''published'', JBool True)]),
                   (''include'', JObj [(''author'', JBool True)])]))
       (\<lambda>publishedPosts.
     seq (console_log [Val (JStr ''   Published posts:''), Val (JArr publishedPosts)])
    (seq (console_log [Val (JStr ''\<newline>3. UPDATE - Updating user...'')])
    (bnd (user_update prisma
            (JObj [(''where'', JObj [(''email'', JStr ''charlie@prisma.io'')]),
                   (''data'', JObj [(''name'', JStr ''Charles'')])]))
       (\<lambda>updatedUser.
     seq (console_log [Val (JStr ''   Updated:''), Val updatedUser])
    (seq (console_log [Val (JStr ''\<newline>4. DELETE - Removing user...'')])
    (bnd (user_delete prisma
            (JObj [(''where'', JObj [(''email'', JStr ''charlie@prisma.io'')])]))
       (\<lambda>deleted.
     seq (console_log [Val (JStr ''   Deleted user successfully'')])
    (seq (console_log [Val (JStr ''\<newline>5. AGGREGATION - Statistics...'')])
    (bnd (user_count prisma JUndefined)
       (\<lambda>userCount.
     bnd (post_count prisma JUndefined)
       (\<lambda>postCount.
     bnd (post_count prisma (JObj [(''where'', JObj [(''published'', JBool True)])]))
       (\<lambda>publishedCount.
     block
       [console_log [Template [Lit ''   Users: '', Sub (JNum userCount)]],
        console_log [Template [Lit ''   Posts: '', Sub (JNum postCount)]],
        console_log [Template [Lit ''   Published: '', Sub (JNum publishedCount)]],
        console_log [Val (JStr ''\<newline>=== ALL EXAMPLES COMPLETE ==='')]])))))))))))))))))))))"

text \<open>
  Lines 91-96: \<open>main().catch((e) => { console.error('Error:', e); process.exit(1); })
  .finally(() => prisma.$disconnect())\<close>.
\<close>

definition example_queries_script :: "'w prisma_client \<Rightarrow> ('w, unit) js" where
  "example_queries_script prisma =
     promise_finally
       (promise_catch (call_fn (example_queries_main prisma))
          (\<lambda>e. block [console_error [Val (JStr ''Error:''), Val e], process_exit 1]))
       (client_disconnect prisma)"

definition example_queries_ts ::
  "(json \<Rightarrow> 'w prisma_client) \<Rightarrow> (string \<rightharpoonup> string) \<Rightarrow> ('w, unit) js" where
  "example_queries_ts PrismaClient env =
     example_queries_script (PrismaClient (example_queries_options env))"

section \<open>The verification script (part_000, lines 1-53)\<close>

text \<open>
  The check mark and the cross of the messages are outside ASCII and are written
  \<open>[ok]\<close> and \<open>[x]\<close>.
\<close>

definition verify :: "'w prisma_client \<Rightarrow> ('w, unit) js" where
  "verify prisma =
     block
      [console_log [Val (JStr ''=== PRISMA VERIFICATION ===\<newline>'')],
       console_log [Val (JStr ''1. Testing database connection...'')],
       try_catch
         (block
           [client_connect prisma,
            console_log [Val (JStr ''   [ok] Database connected successfully\<newline>'')]])
         (\<lambda>e. block
           [console_log [Val (JStr ''   [x] Connection failed:''), Val e],
            return_stmt]),
       console_log [Val (JStr ''2. Checking tables...'')],
       try_catch
         (bnd (user_count prisma JUndefined)
            (\<lambda>userCount.
          bnd (post_count prisma JUndefined)
            (\<lambda>postCount.
          block
            [console_log [Template [Lit ''   [ok] Users: '', Sub (JNum userCount)]],
             console_log [Template [Lit ''   [ok] Posts: '', Sub (JNum postCount), Lit ''\<newline>'']]])))
         (\<lambda>e. block
           [console_log [Val (JStr ''   [x] Failed to query:''), Val e],
            return_stmt]),
       console_log [Val (JStr ''3. Showing all data...'')],
       bnd (user_findMany prisma (JObj [(''include'', JObj [(''posts'', JBool True)])]))
         (\<lambda>users.
       each users
         (\<lambda>user.
          bnd (get user ''name'') (\<lambda>name.
          bnd (get user ''email'') (\<lambda>email.
          seq (console_log
                 [Template [Lit ''   User: '', Sub name, Lit '' ('', Sub email, Lit '')'']])
         (bnd (get user ''posts'') (\<lambda>posts.
          for_of ''user.posts'' posts
            (\<lambda>post.
             bnd (get post ''title'') (\<lambda>title.
             bnd (get post ''published'') (\<lambda>published.
             console_log
               [Template
                  [Lit ''     - Post: '', Lit [CHR 0x22], Sub title, Lit [CHR 0x22], Lit '' ('',
                   Sub (JStr (if truthy published then ''published'' else ''draft'')),
                   Lit '')'']]))))))))),
       console_log [Val (JStr ''\<newline>=== ALL VERIFICATIONS PASSED [ok] ==='')],
       console_log [Val (JStr ''\<newline>Prisma Studio: http://localhost:51212'')]]"

text \<open>Lines 51-53: \<open>verify().catch(console.error).finally(() => prisma.$disconnect())\<close>.\<close>

definition verify_script :: "'w prisma_client \<Rightarrow> ('w, unit) js" where
  "verify_script prisma =
     promise_finally
       (promise_catch (call_fn (verify prisma)) (\<lambda>e. console_error [Val e]))
       (client_disconnect prisma)"

definition verify_ts :: "(json \<Rightarrow> 'w prisma_client) \<Rightarrow> (string \<rightharpoonup> string) \<Rightarrow> ('w, unit) js" where
  "verify_ts PrismaClient env = verify_script (PrismaClient (verify_options env))"

section \<open>The advanced examples (part_001, lines 459-672)\<close>

text \<open>
  \<open>now\<close> is what \<open>Date.now()\<close> returns when step 9 reads the clock. In step 8 the two
  calls inside the array are made without \<open>await\<close>, in source order, before
  \<open>$transaction\<close> is called on their promises. No constant of one step is read in a
  later one, so each statement that declares one is written with the statements that read
  it, and the function body is the block of these.
\<close>

text \<open>The two calls of step 8 (lines 622-634), made inside the array literal.\<close>

definition transaction_user_update :: call where
  "transaction_user_update =
     Call User Update
       (JObj [(''where'', JObj [(''email'', JStr ''alice@prisma.io'')]),
              (''data'', JObj [(''name'', JStr ''Alice Updated'')])])"

definition transaction_post_create :: call where
  "transaction_post_create =
     Call Post Create
       (JObj [(''data'', JObj
          [(''title'', JStr ''Transaction Post''),
           (''content'', JStr ''Created in transaction''),
           (''published'', JBool True),
           (''authorId'', JNum 1)])])"

definition runAllExamples :: "'w prisma_client \<Rightarrow> int \<Rightarrow> ('w, unit) js" where
  "runAllExamples prisma now =
     block
      [console_log [Val (JStr ''=== PRISMA ADVANCED EXAMPLES ===\<newline>'')],

       console_log [Val (JStr ''1. ADVANCED WHERE CLAUSES'')],
       console_log [Val (JStr ''--------------------------'')],
       bnd (user_findMany prisma
              (JObj [(''where'', JObj [(''name'', JObj
                 [(''startsWith'', JStr ''A''), (''mode'', JStr ''insensitive'')])])]))
         (\<lambda>usersStartingWithA.
          console_log [Val (JStr ''   Users starting with A:''), Val (JArr usersStartingWithA)]),
       bnd (post_findMany prisma
              (JObj [(''where'', JObj [(''OR'', JArr
                 [JObj [(''title'', JObj [(''contains'', JStr ''post''),
                                          (''mode'', JStr ''insensitive'')])],
                  JObj [(''content'', JObj [(''contains'', JStr ''post''),
                                            (''mode'', JStr ''insensitive'')])]])])]))
         (\<lambda>postsWithPrisma.
          console_log
            [Val (JStr (''   Posts mentioning '' @ [CHR 0x22] @ ''post'' @ [CHR 0x22] @ '':'')),
             Val (JNum (int (length postsWithPrisma)))]),
       bnd (post_findMany prisma
              (JObj [(''where'', JObj [(''AND'', JArr
                 [JObj [(''published'', JBool True)],
                  JObj [(''author'', JObj [(''email'', JStr ''alice@prisma.io'')])]])])]))
         (\<lambda>publishedPostsByUser.
          console_log [Val (JStr ''   Published posts by Alice:''),
                       Val (JNum (int (length publishedPostsByUser)))]),

       console_log [Val (JStr ''\<newline>2. PAGINATION'')],
       console_log [Val (JStr ''--------------'')],
       bnd (post_findMany prisma
              (JObj [(''skip'', JNum 0), (''take'', JNum 2),
                     (''orderBy'', JObj [(''createdAt'', JStr ''desc'')])]))
         (\<lambda>firstPage.
          seq (console_log [Val (JStr ''   First page (2 items):''),
                            Val (JNum (int (length firstPage)))])
         (bnd (if length firstPage > 0
               then bnd (get (firstPage ! 0) ''id'') (\<lambda>i. ret (JObj [(''id'', i)]))
               else ret JUndefined)
            (\<lambda>cursor.
          bnd (post_findMany prisma
                 (JObj [(''take'', JNum 2), (''cursor'', cursor),
                        (''orderBy'', JObj [(''createdAt'', JStr ''desc'')])]))
            (\<lambda>cursorPage.
          console_log [Val (JStr ''   Cursor page:''), Val (JNum (int (length cursorPage)))])))),

       console_log [Val (JStr ''\<newline>3. SELECT SPECIFIC FIELDS'')],
       console_log [Val (JStr ''-------------------------'')],
       bnd (user_findMany prisma
              (JObj [(''select'', JObj
                 [(''name'', JBool True), (''email'', JBool True),
                  (''posts'', JObj [(''select'', JObj [(''title'', JBool True)])])])]))
         (\<lambda>userNamesOnly.
          console_log [Val (JStr ''   User names with post titles:''), Val (JArr userNamesOnly)]),

       console_log [Val (JStr ''\<newline>4. RELATIONS'')],
       console_log [Val (JStr ''-------------'')],
       bnd (user_findMany prisma
              (JObj [(''include'', JObj [(''posts'', JObj
                 [(''where'', JObj [(''published'', JBool True)]),
                  (''orderBy'', JObj [(''createdAt'', JStr ''desc'')])])])]))
         (\<lambda>usersWithAllPosts.
          seq (console_log [Val (JStr ''   Users with published posts:'')])
         (each usersWithAllPosts
            (\<lambda>user.
             bnd (get user ''name'') (\<lambda>name.
             bnd (get user ''posts'') (\<lambda>posts.
             bnd (get posts ''length'') (\<lambda>n.
             console_log [Template [Lit ''     '', Sub name, Lit '': '', Sub n,
                                    Lit '' published posts'']])))))),

       console_log [Val (JStr ''\<newline>5. AGGREGATION'')],
       console_log [Val (JStr ''--------------'')],
       bnd (user_count prisma JUndefined)
         (\<lambda>totalUsers.
       bnd (post_count prisma JUndefined)
         (\<lambda>totalPosts.
       bnd (post_count prisma (JObj [(''where'', JObj [(''published'', JBool True)])]))
         (\<lambda>publishedPostsCount.
          console_log [Template [Lit ''   Users: '', Sub (JNum totalUsers), Lit '', Posts: '',
                                 Sub (JNum totalPosts), Lit '', Published: '',
                                 Sub (JNum publishedPostsCount)]]))),
       bnd (user_findMany prisma
              (JObj [(''include'', JObj [(''_count'', JObj
                 [(''select'', JObj [(''posts'', JBool True)])])])]))
         (\<lambda>usersWithPostCounts.
          seq (console_log [Val (JStr ''   Post counts per user:'')])
         (each usersWithPostCounts
            (\<lambda>user.
             bnd (get user ''name'') (\<lambda>name.
             bnd (get user ''_count'') (\<lambda>c.
             bnd (get c ''posts'') (\<lambda>n.
             console_log [Template [Lit ''     '', Sub name, Lit '': '', Sub n,
                                    Lit '' posts'']])))))),

       console_log [Val (JStr ''\<newline>6. UPSERT'')],
       console_log [Val (JStr ''---------'')],
       bnd (user_upsert prisma
              (JObj [(''where'', JObj [(''email'', JStr ''upsert@example.com'')]),
                     (''update'', JObj [(''name'', JStr ''Updated Upsert User'')]),
                     (''create'', JObj [(''email'', JStr ''upsert@example.com''),
                                        (''name'', JStr ''New Upsert User'')])]))
         (\<lambda>upsertedUser.
          bnd (get upsertedUser ''name'')
            (\<lambda>upsertedName.
          console_log [Val (JStr ''   Upserted user:''), Val upsertedName])),

       console_log [Val (JStr ''\<newline>7. UPDATE MANY'')],
       console_log [Val (JStr ''-------------'')],
       bnd (post_updateMany prisma
              (JObj [(''where'', JObj [(''published'', JBool False)]),
                     (''data'', JObj [(''published'', JBool True)])]))
         (\<lambda>updateResult_count.
          console_log [Template [Lit ''   Published '', Sub (JNum updateResult_count),
                                 Lit '' draft posts'']]),

       console_log [Val (JStr ''\<newline>8. TRANSACTION'')],
       console_log [Val (JStr ''-------------'')],
       bnd (pending transaction_user_update)
         (\<lambda>p1.
       bnd (pending transaction_post_create)
         (\<lambda>p2.
       bnd (client_transaction prisma [p1, p2])
         (\<lambda>results.
          console_log [Val (JStr ''   Transaction completed: User updated + Post created'')]))),

       console_log [Val (JStr ''\<newline>9. DATES & COMPARISONS'')],
       console_log [Val (JStr ''---------------------'')],
       bnd (post_findMany prisma
              (JObj [(''where'', JObj [(''createdAt'', JObj
                 [(''gte'', JDate (now - 24 * 60 * 60 * 1000))])])]))
         (\<lambda>recentPosts.
          console_log [Template [Lit ''   Posts from last 24h: '',
                                 Sub (JNum (int (length recentPosts)))]]),

       console_log [Val (JStr ''\<newline>10. GROUP BY'')],
       console_log [Val (JStr ''-----------'')],
       bnd (post_groupBy prisma
              (JObj [(''by'', JArr [JStr ''authorId'']),
                     (''_count'', JObj [(''id'', JBool True)])]))
         (\<lambda>postsPerUser.
          seq (console_log [Val (JStr ''   Posts per user:'')])
         (each postsPerUser
            (\<lambda>group.
             bnd (get group ''authorId'') (\<lambda>authorId.
             bnd (get group ''_count'') (\<lambda>c.
             bnd (get c ''id'') (\<lambda>n.
             console_log [Template [Lit ''     Author '', Sub authorId, Lit '': '', Sub n,
                                    Lit '' posts'']])))))),

       console_log [Val (JStr ''\<newline>=== ALL EXAMPLES COMPLETE ==='')]]"

text \<open>
  Lines 670-672:
  \<open>runAllExamples().catch(console.error).finally(() => prisma.$disconnect())\<close>.
\<close>

definition advanced_script :: "'w prisma_client \<Rightarrow> int \<Rightarrow> ('w, unit) js" where
  "advanced_script prisma now =
     promise_finally
       (promise_catch (call_fn (runAllExamples prisma now)) (\<lambda>e. console_error [Val e]))
       (client_disconnect prisma)"

definition advanced_ts ::
  "(json \<Rightarrow> 'w prisma_client) \<Rightarrow> (string \<rightharpoonup> string) \<Rightarrow> int \<Rightarrow> ('w, unit) js" where
  "advanced_ts PrismaClient env now = advanced_script (PrismaClient (advanced_options env)) now"

section \<open>Reading a trace\<close>

text \<open>The methods called during a run, in order, and how often one of them was called.\<close>

fun invoked_methods :: "event list \<Rightarrow> orm_method list" where
  "invoked_methods [] = []"
| "invoked_methods (Invoke c # evs) = method_of c # invoked_methods evs"
| "invoked_methods (ev # evs) = invoked_methods evs"

definition invocations :: "orm_method \<Rightarrow> event list \<Rightarrow> nat" where
  "invocations m evs = length (filter (\<lambda>x. x = m) (invoked_methods evs))"

text \<open>
  The first call of a run that rejects: the call, the value it raised, and everything the
  run did afterwards.
\<close>

fun first_rejection :: "event list \<Rightarrow> (call \<times> json \<times> event list) option" where
  "first_rejection [] = None"
| "first_rejection (Rejected c e # evs) = Some (c, e, evs)"
| "first_rejection (ev # evs) = first_rejection evs"

text \<open>
  A trace is sequential when every call is followed at once by its own settlement: no
  other call is made, and nothing is printed, while one is in flight.
\<close>

fun sequential :: "event list \<Rightarrow> bool" where
  "sequential [] = True"
| "sequential (Invoke c # Resolved c' # evs) = (c = c' \<and> sequential evs)"
| "sequential (Invoke c # Rejected c' e # evs) = (c = c' \<and> sequential evs)"
| "sequential (Invoke c # evs) = False"
| "sequential (Resolved c # evs) = False"
| "sequential (Rejected c e # evs) = False"
| "sequential (ConsoleLog as # evs) = sequential evs"
| "sequential (ConsoleError as # evs) = sequential evs"


text \<open>The event \<open>ev\<close> is the settlement of the call \<open>c\<close>.\<close>

fun settles :: "call \<Rightarrow> event \<Rightarrow> bool" where
  "settles c (Resolved c') = (c = c')"
| "settles c (Rejected c' e) = (c = c')"
| "settles c ev = False"

text \<open>
  What step 8 of the advanced examples does (part_001, lines 618-634), up to the settlement
  of \<open>$transaction\<close>: its two heading lines, the two calls made inside the array
  literal, and the \<open>$transaction\<close> call on the two.
\<close>

definition transaction_step :: "event \<Rightarrow> event list" where
  "transaction_step settled =
     [ConsoleLog [Val (JStr ''\<newline>8. TRANSACTION'')],
      ConsoleLog [Val (JStr ''-------------'')],
      Invoke transaction_user_update,
      Invoke transaction_post_create,
      Invoke (Batch [transaction_user_update, transaction_post_create]),
      settled]"

section \<open>A test client\<close>

text \<open>
  A client for running the scripts on concrete inputs. Its database is the number of
  calls settled so far; the call numbered \<open>k\<close> (from 0) rejects, every other call
  resolves with an empty result. \<open>stub_client None\<close> never rejects.
\<close>

definition settle :: "nat option \<Rightarrow> 'a \<Rightarrow> (nat, 'a) op" where
  "settle k v n =
     (if k = Some n then Inl (JError ''PrismaClientKnownRequestError'' ''request failed'')
      else Inr v, Suc n)"

definition stub_delegate :: "nat option \<Rightarrow> nat delegate" where
  "stub_delegate k =
     \<lparr>create = (\<lambda>a. settle k (JObj [])),
      findMany = (\<lambda>a. settle k []),
      findUnique = (\<lambda>a. settle k JNull),
      update = (\<lambda>a. settle k (JObj [])),
      delete = (\<lambda>a. settle k (JObj [])),
      count = (\<lambda>a. settle k 0),
      upsert = (\<lambda>a. settle k (JObj [])),
      updateMany = (\<lambda>a. settle k 0),
      groupBy = (\<lambda>a. settle k [])\<rparr>"

definition stub_client :: "nat option \<Rightarrow> nat prisma_client" where
  "stub_client k =
     \<lparr>user = stub_delegate k,
      post = stub_delegate k,
      transaction = (\<lambda>ps. settle k []),
      connect = settle k (),
      disconnect = settle k ()\<rparr>"

section \<open>A database behind the client\<close>

text \<open>
  Modelled from the spec: the generated client \<open>./generated/prisma/client.js\<close> and the
  database behind it are missing from the sources. The spec's data model gives the two
  tables: a User has a unique identifier, a unique email, an optional display name and a
  creation timestamp, and owns Posts; a Post has a unique identifier, a title, an optional
  text content, a published flag (default false), a creation timestamp and a reference to
  its owning User. Row creation, update and deletion keep the email unique and every
  \<open>authorId\<close> pointing at an existing User. How a User that still owns Posts is deleted
  (its Posts go with it, or the deletion is refused) is decided by the schema, which is
  missing too: it is the parameter \<open>referential_action\<close>. Only the methods and argument
  shapes that example-queries.ts uses are modelled; the others reject.
\<close>

record user_row =
  user_id :: int
  user_email :: string
  user_name :: "string option"
  user_createdAt :: int

record post_row =
  post_id :: int
  post_title :: string
  post_content :: "string option"
  post_published :: bool
  post_createdAt :: int
  post_authorId :: int

record database =
  users :: "user_row list"
  posts :: "post_row list"
  next_user_id :: int
  next_post_id :: int
  clock :: int

datatype referential_action = Cascade | Restrict

definition arg_field :: "json \<Rightarrow> string \<Rightarrow> json" where
  "arg_field a k =
     (case a of
        JObj kvs \<Rightarrow> (case map_of (rev kvs) k of None \<Rightarrow> JUndefined | Some v \<Rightarrow> v)
      | _ \<Rightarrow> JUndefined)"

definition known_request_error :: "string \<Rightarrow> json" where
  "known_request_error msg = JError ''PrismaClientKnownRequestError'' msg"

definition validation_error :: "string \<Rightarrow> json" where
  "validation_error msg = JError ''PrismaClientValidationError'' msg"

definition not_modelled :: "(database, 'a) op" where
  "not_modelled db = (Inl (JError ''NotModelled'' []), db)"

definition user_json :: "user_row \<Rightarrow> json" where
  "user_json u =
     JObj [(''id'', JNum (user_id u)),
           (''email'', JStr (user_email u)),
           (''name'', case user_name u of None \<Rightarrow> JNull | Some n \<Rightarrow> JStr n),
           (''createdAt'', JDate (user_createdAt u))]"

definition post_json :: "post_row \<Rightarrow> json" where
  "post_json p =
     JObj [(''id'', JNum (post_id p)),
           (''title'', JStr (post_title p)),
           (''content'', case post_content p of None \<Rightarrow> JNull | Some c \<Rightarrow> JStr c),
           (''published'', JBool (post_published p)),
           (''createdAt'', JDate (post_createdAt p)),
           (''authorId'', JNum (post_authorId p))]"

definition with_relation :: "string \<Rightarrow> json \<Rightarrow> json \<Rightarrow> json" where
  "with_relation k v row = (case row of JObj kvs \<Rightarrow> JObj (kvs @ [(k, v)]) | _ \<Rightarrow> row)"

text \<open>\<open>posts: { create: ... }\<close> takes one Post or an array of them.\<close>

fun post_inputs :: "json \<Rightarrow> json list" where
  "post_inputs (JArr xs) = xs"
| "post_inputs JUndefined = []"
| "post_inputs v = [v]"

definition new_post :: "database \<Rightarrow> int \<Rightarrow> nat \<times> json \<Rightarrow> post_row" where
  "new_post db author x =
     \<lparr>post_id = next_post_id db + int (fst x),
      post_title = (case arg_field (snd x) ''title'' of JStr t \<Rightarrow> t | _ \<Rightarrow> []),
      post_content = (case arg_field (snd x) ''content'' of JStr c \<Rightarrow> Some c | _ \<Rightarrow> None),
      post_published = (case arg_field (snd x) ''published'' of JBool b \<Rightarrow> b | _ \<Rightarrow> False),
      post_createdAt = clock db,
      post_authorId = author\<rparr>"

text \<open>
  Modelled from the spec: \<open>prisma.user.create\<close> of the missing client. A new User gets
  the next identifier and the Posts given with it refer to it; a second User with an email
  already there is refused (the email is unique).
\<close>

definition db_user_create :: "json \<Rightarrow> (database, json) op" where
  "db_user_create a db =
     (case arg_field (arg_field a ''data'') ''email'' of
        JStr em \<Rightarrow>
          if em \<in> set (map user_email (users db))
          then (Inl (known_request_error ''Unique constraint failed on the fields: (email)''), db)
          else
            (let u = \<lparr>user_id = next_user_id db,
                      user_email = em,
                      user_name = (case arg_field (arg_field a ''data'') ''name'' of
                                     JStr n \<Rightarrow> Some n | _ \<Rightarrow> None),
                      user_createdAt = clock db\<rparr>;
                 inputs = post_inputs (arg_field (arg_field (arg_field a ''data'') ''posts'') ''create'')
             in (Inr (user_json u),
                 db\<lparr>users := users db @ [u],
                    posts := posts db @ map (new_post db (user_id u)) (enumerate 0 inputs),
                    next_user_id := next_user_id db + 1,
                    next_post_id := next_post_id db + int (length inputs)\<rparr>))
      | _ \<Rightarrow> (Inl (validation_error ''Argument email is missing''), db))"

text \<open>
  Modelled from the spec: \<open>prisma.user.update\<close> of the missing client, for a User found
  by its unique email and a new display name.
\<close>

definition db_user_update :: "json \<Rightarrow> (database, json) op" where
  "db_user_update a db =
     (case arg_field (arg_field a ''where'') ''email'' of
        JStr em \<Rightarrow>
          (case filter (\<lambda>u. user_email u = em) (users db) of
             [] \<Rightarrow> (Inl (known_request_error ''Record to update not found''), db)
           | u # us \<Rightarrow>
               (let rename = (\<lambda>v. case arg_field (arg_field a ''data'') ''name'' of
                                     JStr n \<Rightarrow> v\<lparr>user_name := Some n\<rparr>
                                   | JNull \<Rightarrow> v\<lparr>user_name := None\<rparr>
                                   | _ \<Rightarrow> v)
                in (Inr (user_json (rename u)),
                    db\<lparr>users := map (\<lambda>v. if user_email v = em then rename v else v) (users db)\<rparr>)))
      | _ \<Rightarrow> (Inl (validation_error ''Argument where needs a unique field''), db))"

text \<open>
  Modelled from the spec: \<open>prisma.user.delete\<close> of the missing client, for a User found
  by its unique email. No Post is left referring to a User that is gone: the Posts of the
  User are deleted with it (\<open>Cascade\<close>), or the deletion is refused while it owns one
  (\<open>Restrict\<close>).
\<close>

definition db_user_delete :: "referential_action \<Rightarrow> json \<Rightarrow> (database, json) op" where
  "db_user_delete ra a db =
     (case arg_field (arg_field a ''where'') ''email'' of
        JStr em \<Rightarrow>
          (case filter (\<lambda>u. user_email u = em) (users db) of
             [] \<Rightarrow> (Inl (known_request_error ''Record to delete does not exist''), db)
           | u # us \<Rightarrow>
               if ra = Restrict \<and> user_id u \<in> set (map post_authorId (posts db))
               then (Inl (known_request_error ''Foreign key constraint violated''), db)
               else (Inr (user_json u),
                     db\<lparr>users := filter (\<lambda>v. user_email v \<noteq> em) (users db),
                        posts := filter (\<lambda>p. post_authorId p \<noteq> user_id u) (posts db)\<rparr>))
      | _ \<Rightarrow> (Inl (validation_error ''Argument where needs a unique field''), db))"

text \<open>
  Modelled from the spec: the rows that \<open>findMany\<close>, \<open>findUnique\<close> and \<open>count\<close> of
  the missing client read, with \<open>where\<close> by email (users) or by the published flag
  (posts), and \<open>include\<close> of the related rows. Reading leaves the database as it is.
\<close>

definition db_user_rows :: "json \<Rightarrow> database \<Rightarrow> json list" where
  "db_user_rows a db =
     map (\<lambda>u. if truthy (arg_field (arg_field a ''include'') ''posts'')
               then with_relation ''posts''
                      (JArr (map post_json (filter (\<lambda>p. post_authorId p = user_id u) (posts db))))
                      (user_json u)
               else user_json u)
         (filter (\<lambda>u. case arg_field (arg_field a ''where'') ''email'' of
                         JStr em \<Rightarrow> user_email u = em | _ \<Rightarrow> True)
                 (users db))"

definition db_post_rows :: "json \<Rightarrow> database \<Rightarrow> json list" where
  "db_post_rows a db =
     map (\<lambda>p. if truthy (arg_field (arg_field a ''include'') ''author'')
               then with_relation ''author''
                      (case filter (\<lambda>u. user_id u = post_authorId p) (users db) of
                         [] \<Rightarrow> JNull | u # us \<Rightarrow> user_json u)
                      (post_json p)
               else post_json p)
         (filter (\<lambda>p. case arg_field (arg_field a ''where'') ''published'' of
                         JBool b \<Rightarrow> post_published p = b | _ \<Rightarrow> True)
                 (posts db))"

text \<open>Modelled from the spec: the missing client, over this database.\<close>

definition db_user :: "referential_action \<Rightarrow> database delegate" where
  "db_user ra =
     \<lparr>create = db_user_create,
      findMany = (\<lambda>a db. (Inr (db_user_rows a db), db)),
      findUnique = (\<lambda>a db. (Inr (case db_user_rows a db of [] \<Rightarrow> JNull | r # rs \<Rightarrow> r), db)),
      update = db_user_update,
      delete = db_user_delete ra,
      count = (\<lambda>a db. (Inr (int (length (db_user_rows a db))), db)),
      upsert = (\<lambda>a. not_modelled),
      updateMany = (\<lambda>a. not_modelled),
      groupBy = (\<lambda>a. not_modelled)\<rparr>"

definition db_post :: "database delegate" where
  "db_post =
     \<lparr>create = (\<lambda>a. not_modelled),
      findMany = (\<lambda>a db. (Inr (db_post_rows a db), db)),
      findUnique = (\<lambda>a. not_modelled),
      update = (\<lambda>a. not_modelled),
      delete = (\<lambda>a. not_modelled),
      count = (\<lambda>a db. (Inr (int (length (db_post_rows a db))), db)),
      upsert = (\<lambda>a. not_modelled),
      updateMany = (\<lambda>a. not_modelled),
      groupBy = (\<lambda>a. not_modelled)\<rparr>"

definition db_client :: "referential_action \<Rightarrow> database prisma_client" where
  "db_client ra =
     \<lparr>user = db_user ra,
      post = db_post,
      transaction = (\<lambda>ps. not_modelled),
      connect = (\<lambda>db. (Inr (), db)),
      disconnect = (\<lambda>db. (Inr (), db))\<rparr>"

text \<open>An empty database, and the database that queries.ts leaves when it is run on it.\<close>

definition empty_database :: database where
  "empty_database = \<lparr>users = [], posts = [], next_user_id = 1, next_post_id = 1, clock = 0\<rparr>"

definition seeded_database :: database where
  "seeded_database =
     \<lparr>users =
        [\<lparr>user_id = 1, user_email = ''alice@prisma.io'', user_name = Some ''Alice'',
          user_createdAt = 0\<rparr>,
         \<lparr>user_id = 2, user_email = ''bob@prisma.io'', user_name = Some ''Bob'',
          user_createdAt = 0\<rparr>],
      posts =
        [\<lparr>post_id = 1, post_title = ''My first post'', post_content = Some ''Hello World!'',
          post_published = True, post_createdAt = 0, post_authorId = 1\<rparr>,
         \<lparr>post_id = 2, post_title = ''Draft post'', post_content = Some ''This is a draft'',
          post_published = False, post_createdAt = 0, post_authorId = 1\<rparr>,
         \<lparr>post_id = 3, post_title = ''Bob's first post'',
          post_content = Some ''Nice to meet you!'', post_published = True, post_createdAt = 0,
          post_authorId = 2\<rparr>],
      next_user_id = 3, next_post_id = 4, clock = 0\<rparr>"

section \<open>Properties of statements\<close>

text \<open>
  \<open>emits Q m\<close>: whatever the state, the statement \<open>m\<close> only appends to the trace, and
  its completion (without the value) and the events it appends satisfy \<open>Q\<close>.
\<close>

definition kind :: "'a completion \<Rightarrow> unit completion" where
  "kind r =
     (case r of
        Normal v \<Rightarrow> Normal ()
      | Return \<Rightarrow> Return
      | Throw e \<Rightarrow> Throw e
      | Halt n \<Rightarrow> Halt n)"

definition emits :: "(unit completion \<Rightarrow> event list \<Rightarrow> bool) \<Rightarrow> ('w, 'a) js \<Rightarrow> bool" where
  "emits Q m = (\<forall>s. \<exists>evs. trace (snd (m s)) = trace s @ evs \<and> Q (kind (fst (m s))) evs)"

text \<open>\<open>Q\<close> survives putting one statement after another.\<close>

definition composable :: "(unit completion \<Rightarrow> event list \<Rightarrow> bool) \<Rightarrow> bool" where
  "composable Q =
     (Q (Normal ()) [] \<and> (\<forall>xs r ys. Q (Normal ()) xs \<longrightarrow> Q r ys \<longrightarrow> Q r (xs @ ys)))"

text \<open>
  \<open>handled L\<close>: a rejected call of a method in \<open>L\<close> is caught where it is made, the
  value raised is printed with \<open>console.log\<close> and the function returns; a rejected call
  of any other method ends the statement at once, throwing the value raised.
\<close>

definition handled :: "orm_method set \<Rightarrow> unit completion \<Rightarrow> event list \<Rightarrow> bool" where
  "handled L r evs =
     (case first_rejection evs of
        None \<Rightarrow> True
      | Some (c, e, rest) \<Rightarrow>
          if method_of c \<in> L
          then r = Return \<and> (\<exists>msg. rest = [ConsoleLog [Val (JStr msg), Val e]])
          else r = Throw e \<and> rest = [])"

text \<open>Properties of the trace alone: \<open>Q\<close> does not look at the completion.\<close>

definition trace_only :: "(unit completion \<Rightarrow> event list \<Rightarrow> bool) \<Rightarrow> bool" where
  "trace_only Q = (\<forall>r r' evs. Q r evs \<longrightarrow> Q r' evs)"

definition calls_within :: "orm_method set \<Rightarrow> unit completion \<Rightarrow> event list \<Rightarrow> bool" where
  "calls_within M r evs = (set (invoked_methods evs) \<subseteq> M)"

definition in_sequence :: "unit completion \<Rightarrow> event list \<Rightarrow> bool" where
  "in_sequence r evs = sequential evs"

text \<open>
  The runs of the advanced examples: sequential without the heading of step 8, or
  sequential before step 8 and after it.
\<close>

definition before_transaction :: "unit completion \<Rightarrow> event list \<Rightarrow> bool" where
  "before_transaction r evs =
     (sequential evs \<and> ConsoleLog [Val (JStr ''\<newline>8. TRANSACTION'')] \<notin> set evs)"

definition through_transaction :: "unit completion \<Rightarrow> event list \<Rightarrow> bool" where
  "through_transaction r evs =
     (\<exists>before settled after.
        evs = before @ transaction_step settled @ after \<and>
        sequential before \<and> sequential after \<and>
        settles (Batch [transaction_user_update, transaction_post_create]) settled)"

definition around_transaction :: "unit completion \<Rightarrow> event list \<Rightarrow> bool" where
  "around_transaction r evs = (before_transaction r evs \<or> through_transaction r evs)"



definition anything :: "unit completion \<Rightarrow> event list \<Rightarrow> bool" where
  "anything r evs = True"

section \<open>Unfolding the model\<close>

lemmas js_defs = run_def outcome_def events_def final_world_def ret_def return_stmt_def throw_def
  process_exit_def bnd_def seq_def try_catch_def emit_def console_log_def console_error_def
  await_def pending_def call_fn_def promise_catch_def promise_finally_def

lemmas call_defs = user_create_def user_findMany_def user_findUnique_def user_update_def
  user_delete_def user_count_def user_upsert_def post_findMany_def post_count_def
  post_updateMany_def post_groupBy_def client_transaction_def client_connect_def
  client_disconnect_def

lemmas stub_defs = settle_def stub_delegate_def stub_client_def

lemmas script_defs = queries_script_def queries_main_def example_queries_script_def
  example_queries_main_def verify_script_def verify_def advanced_script_def runAllExamples_def
  transaction_user_update_def transaction_post_create_def

section \<open>The options of the client\<close>

text \<open>
  Claim C6, as stated: every script passes the value of \<open>process.env.DATABASE_URL\<close> as
  \<open>accelerateUrl\<close>. In an environment where the variable is not set its value is
  \<open>undefined\<close>, and the verification script passes the empty string instead.
\<close>

theorem verify_accelerateUrl_differs_when_unset:
  "accelerateUrl (verify_options Map.empty) \<noteq> process_env Map.empty ''DATABASE_URL''"
  by (simp add: accelerateUrl_def verify_options_def process_env_def)

text \<open>
  Claim C6, amended: queries.ts, example-queries.ts and the advanced examples pass the value
  of \<open>process.env.DATABASE_URL\<close> as it is; the verification script passes it when the
  variable is set, and the empty string when it is not.
\<close>

theorem accelerateUrl_of_every_script:
  "accelerateUrl (queries_options env) = process_env env ''DATABASE_URL'' \<and>
   accelerateUrl (example_queries_options env) = process_env env ''DATABASE_URL'' \<and>
   accelerateUrl (advanced_options env) = process_env env ''DATABASE_URL'' \<and>
   accelerateUrl (verify_options env) =
     (case env ''DATABASE_URL'' of None \<Rightarrow> JStr [] | Some url \<Rightarrow> JStr url)"
  by (simp add: accelerateUrl_def queries_options_def example_queries_options_def
      advanced_options_def verify_options_def process_env_def non_null_def split: option.split)

text \<open>
  Claim C8: whatever the environment, the verification script passes a string as
  \<open>accelerateUrl\<close>, the empty one when \<open>DATABASE_URL\<close> is not set; the other
  scripts pass \<open>process.env.DATABASE_URL\<close> under a non-null assertion, which is
  \<open>undefined\<close> when the variable is not set.
\<close>

theorem verify_options_total:
  "(\<exists>url. accelerateUrl (verify_options env) = JStr url) \<and>
   accelerateUrl (verify_options (env(''DATABASE_URL'' := None))) = JStr [] \<and>
   accelerateUrl (queries_options env) = non_null (process_env env ''DATABASE_URL'') \<and>
   accelerateUrl (example_queries_options env) = non_null (process_env env ''DATABASE_URL'') \<and>
   accelerateUrl (advanced_options env) = non_null (process_env env ''DATABASE_URL'') \<and>
   accelerateUrl (queries_options (env(''DATABASE_URL'' := None))) = JUndefined \<and>
   accelerateUrl (example_queries_options (env(''DATABASE_URL'' := None))) = JUndefined \<and>
   accelerateUrl (advanced_options (env(''DATABASE_URL'' := None))) = JUndefined"
  by (simp add: accelerateUrl_def queries_options_def example_queries_options_def
      advanced_options_def verify_options_def process_env_def non_null_def split: option.split)

section \<open>Releasing the client\<close>

lemma queries_disconnects:
  "invocations Disconnect (events (queries_script (stub_client (Some 0))) 0) = 0"
  "outcome (queries_script (stub_client (Some 0))) 0 = Halt 1"
  "invocations Disconnect (events (queries_script (stub_client None)) 0) = 1"
  by (simp_all add: queries_script_def queries_main_def js_defs call_defs stub_defs
      invocations_def)

lemma example_queries_disconnects:
  "invocations Disconnect (events (example_queries_script (stub_client (Some 0))) 0) = 0"
  "outcome (example_queries_script (stub_client (Some 0))) 0 = Halt 1"
  "invocations Disconnect (events (example_queries_script (stub_client None)) 0) = 1"
  by (simp_all add: example_queries_script_def example_queries_main_def js_defs call_defs
      stub_defs invocations_def)

lemma verify_disconnects:
  "invocations Disconnect (events (verify_script (stub_client (Some 0))) 0) = 1"
  "invocations Disconnect (events (verify_script (stub_client None)) 0) = 1"
  by (simp_all add: verify_script_def verify_def js_defs call_defs stub_defs invocations_def)

lemma advanced_disconnects:
  "invocations Disconnect (events (advanced_script (stub_client (Some 0)) 0) 0) = 1"
  "invocations Disconnect (events (advanced_script (stub_client None) 0) 0) = 1"
  by (simp_all add: advanced_script_def runAllExamples_def transaction_user_update_def
      transaction_post_create_def js_defs call_defs stub_defs invocations_def)

text \<open>
  Claim C3: every script releases the client exactly once, on the success path and on the
  error path. The code of queries.ts and example-queries.ts does not: when the first call
  of \<open>main\<close> rejects, the \<open>catch\<close> handler ends the process with \<open>process.exit(1)\<close>
  and the \<open>finally\<close> callback never runs, so \<open>$disconnect\<close> is not called at all. On the
  success path, and on both paths of the other two scripts, it is called once.
\<close>

theorem queries_rejection_skips_disconnect:
  "invocations Disconnect (events (queries_script (stub_client (Some 0))) 0) = 0 \<and>
   outcome (queries_script (stub_client (Some 0))) 0 = Halt 1 \<and>
   invocations Disconnect (events (example_queries_script (stub_client (Some 0))) 0) = 0 \<and>
   outcome (example_queries_script (stub_client (Some 0))) 0 = Halt 1 \<and>
   invocations Disconnect (events (queries_script (stub_client None)) 0) = 1 \<and>
   invocations Disconnect (events (example_queries_script (stub_client None)) 0) = 1 \<and>
   invocations Disconnect (events (verify_script (stub_client (Some 0))) 0) = 1 \<and>
   invocations Disconnect (events (verify_script (stub_client None)) 0) = 1 \<and>
   invocations Disconnect (events (advanced_script (stub_client (Some 0)) 0) 0) = 1 \<and>
   invocations Disconnect (events (advanced_script (stub_client None) 0) 0) = 1"
  using queries_disconnects example_queries_disconnects verify_disconnects advanced_disconnects
  by blast

section \<open>The early returns of the verification script\<close>

lemma verify_connect_rejected:
  "connect prisma w = (Inl e, w1) \<longrightarrow>
      outcome (call_fn (verify prisma)) w = Normal () \<and>
      events (call_fn (verify prisma)) w =
        [ConsoleLog [Val (JStr ''=== PRISMA VERIFICATION ===\<newline>'')],
         ConsoleLog [Val (JStr ''1. Testing database connection...'')],
         Invoke (Call Client Connect JUndefined),
         Rejected (Call Client Connect JUndefined) e,
         ConsoleLog [Val (JStr ''   [x] Connection failed:''), Val e]]"
  by (simp add: verify_def js_defs call_defs)

lemma verify_user_count_rejected:
  "connect prisma w = (Inr u, w1) \<and> count (user prisma) JUndefined w1 = (Inl e, w2) \<longrightarrow>
      outcome (call_fn (verify prisma)) w = Normal () \<and>
      events (call_fn (verify prisma)) w =
        [ConsoleLog [Val (JStr ''=== PRISMA VERIFICATION ===\<newline>'')],
         ConsoleLog [Val (JStr ''1. Testing database connection...'')],
         Invoke (Call Client Connect JUndefined),
         Resolved (Call Client Connect JUndefined),
         ConsoleLog [Val (JStr ''   [ok] Database connected successfully\<newline>'')],
         ConsoleLog [Val (JStr ''2. Checking tables...'')],
         Invoke (Call User Count JUndefined),
         Rejected (Call User Count JUndefined) e,
         ConsoleLog [Val (JStr ''   [x] Failed to query:''), Val e]]"
  by (simp add: verify_def js_defs call_defs)

lemma verify_post_count_rejected:
  "connect prisma w = (Inr u, w1) \<and> count (user prisma) JUndefined w1 = (Inr n, w2) \<and>
    count (post prisma) JUndefined w2 = (Inl e, w3) \<longrightarrow>
      outcome (call_fn (verify prisma)) w = Normal () \<and>
      events (call_fn (verify prisma)) w =
        [ConsoleLog [Val (JStr ''=== PRISMA VERIFICATION ===\<newline>'')],
         ConsoleLog [Val (JStr ''1. Testing database connection...'')],
         Invoke (Call Client Connect JUndefined),
         Resolved (Call Client Connect JUndefined),
         ConsoleLog [Val (JStr ''   [ok] Database connected successfully\<newline>'')],
         ConsoleLog [Val (JStr ''2. Checking tables...'')],
         Invoke (Call User Count JUndefined),
         Resolved (Call User Count JUndefined),
         Invoke (Call Post Count JUndefined),
         Rejected (Call Post Count JUndefined) e,
         ConsoleLog [Val (JStr ''   [x] Failed to query:''), Val e]]"
  by (simp add: verify_def js_defs call_defs)

text \<open>
  Claim C9: in the verification script, when \<open>$connect\<close> rejects, or one of the two
  counts of the table check rejects, \<open>verify\<close> prints the failure and returns: its
  promise is fulfilled (nothing is raised), and the rejected call is the last call it
  makes, so no \<open>findMany\<close> is attempted.
\<close>

theorem verify_returns_after_failed_check:
  "(connect prisma w = (Inl e, w1) \<longrightarrow>
      outcome (call_fn (verify prisma)) w = Normal () \<and>
      events (call_fn (verify prisma)) w =
        [ConsoleLog [Val (JStr ''=== PRISMA VERIFICATION ===\<newline>'')],
         ConsoleLog [Val (JStr ''1. Testing database connection...'')],
         Invoke (Call Client Connect JUndefined),
         Rejected (Call Client Connect JUndefined) e,
         ConsoleLog [Val (JStr ''   [x] Connection failed:''), Val e]]) \<and>
   (connect prisma w = (Inr u, w1) \<and> count (user prisma) JUndefined w1 = (Inl e, w2) \<longrightarrow>
      outcome (call_fn (verify prisma)) w = Normal () \<and>
      events (call_fn (verify prisma)) w =
        [ConsoleLog [Val (JStr ''=== PRISMA VERIFICATION ===\<newline>'')],
         ConsoleLog [Val (JStr ''1. Testing database connection...'')],
         Invoke (Call Client Connect JUndefined),
         Resolved (Call Client Connect JUndefined),
         ConsoleLog [Val (JStr ''   [ok] Database connected successfully\<newline>'')],
         ConsoleLog [Val (JStr ''2. Checking tables...'')],
         Invoke (Call User Count JUndefined),
         Rejected (Call User Count JUndefined) e,
         ConsoleLog [Val (JStr ''   [x] Failed to query:''), Val e]]) \<and>
   (connect prisma w = (Inr u, w1) \<and> count (user prisma) JUndefined w1 = (Inr n, w2) \<and>
    count (post prisma) JUndefined w2 = (Inl e, w3) \<longrightarrow>
      outcome (call_fn (verify prisma)) w = Normal () \<and>
      events (call_fn (verify prisma)) w =
        [ConsoleLog [Val (JStr ''=== PRISMA VERIFICATION ===\<newline>'')],
         ConsoleLog [Val (JStr ''1. Testing database connection...'')],
         Invoke (Call Client Connect JUndefined),
         Resolved (Call Client Connect JUndefined),
         ConsoleLog [Val (JStr ''   [ok] Database connected successfully\<newline>'')],
         ConsoleLog [Val (JStr ''2. Checking tables...'')],
         Invoke (Call User Count JUndefined),
         Resolved (Call User Count JUndefined),
         Invoke (Call Post Count JUndefined),
         Rejected (Call Post Count JUndefined) e,
         ConsoleLog [Val (JStr ''   [x] Failed to query:''), Val e]])"
  by (intro conjI verify_connect_rejected verify_user_count_rejected
      verify_post_count_rejected)

text \<open>
  The three early returns on the test client: the call numbered 0 (\<open>$connect\<close>), 1 (the
  count of users) or 2 (the count of posts) rejects.
\<close>

theorem verify_returns_after_failed_check_witness:
  "connect (stub_client (Some 0)) 0 =
     (Inl (JError ''PrismaClientKnownRequestError'' ''request failed''), 1) \<and>
   outcome (call_fn (verify (stub_client (Some 0)))) 0 = Normal () \<and>
   invoked_methods (events (call_fn (verify (stub_client (Some 0)))) 0) = [Connect] \<and>
   connect (stub_client (Some 1)) 0 = (Inr (), 1) \<and>
   count (user (stub_client (Some 1))) JUndefined 1 =
     (Inl (JError ''PrismaClientKnownRequestError'' ''request failed''), 2) \<and>
   outcome (call_fn (verify (stub_client (Some 1)))) 0 = Normal () \<and>
   invoked_methods (events (call_fn (verify (stub_client (Some 1)))) 0) = [Connect, Count] \<and>
   connect (stub_client (Some 2)) 0 = (Inr (), 1) \<and>
   count (user (stub_client (Some 2))) JUndefined 1 = (Inr 0, 2) \<and>
   count (post (stub_client (Some 2))) JUndefined 2 =
     (Inl (JError ''PrismaClientKnownRequestError'' ''request failed''), 3) \<and>
   outcome (call_fn (verify (stub_client (Some 2)))) 0 = Normal () \<and>
   invoked_methods (events (call_fn (verify (stub_client (Some 2)))) 0) = [Connect, Count, Count]"
  using verify_returns_after_failed_check
          [of "stub_client (Some 0)" 0 "JError ''PrismaClientKnownRequestError'' ''request failed''"
              1 "()" 0 0 0]
        verify_returns_after_failed_check
          [of "stub_client (Some 1)" 0 "JError ''PrismaClientKnownRequestError'' ''request failed''"
              1 "()" 2 0 0]
        verify_returns_after_failed_check
          [of "stub_client (Some 2)" 0 "JError ''PrismaClientKnownRequestError'' ''request failed''"
              1 "()" 2 0 3]
  by (simp add: stub_defs)

section \<open>Rules for statements\<close>

lemma kind_simps [simp]:
  "kind (Normal v) = Normal ()" "kind Return = Return" "kind (Throw e) = Throw e"
  "kind (Halt n) = Halt n"
  by (simp_all add: kind_def)

lemma emits_run: "emits Q m \<Longrightarrow> Q (kind (outcome m w)) (events m w)"
  unfolding emits_def outcome_def events_def run_def
  by (drule spec [of _ "\<lparr>world = w, trace = []\<rparr>"]) auto

lemma emits_ret: "composable Q \<Longrightarrow> emits Q (ret v)"
  by (simp add: emits_def ret_def composable_def)

lemma emits_throw: "Q (Throw e) [] \<Longrightarrow> emits Q (throw e)"
  by (simp add: emits_def throw_def)

lemma emits_return_stmt: "Q Return [] \<Longrightarrow> emits Q return_stmt"
  by (simp add: emits_def return_stmt_def)

lemma emits_process_exit: "Q (Halt n) [] \<Longrightarrow> emits Q (process_exit n)"
  by (simp add: emits_def process_exit_def)

lemma emits_emit: "Q (Normal ()) [ev] \<Longrightarrow> emits Q (emit ev)"
  by (simp add: emits_def emit_def)

lemma emits_console_log: "Q (Normal ()) [ConsoleLog as] \<Longrightarrow> emits Q (console_log as)"
  by (simp add: console_log_def emits_emit)

lemma emits_console_error: "Q (Normal ()) [ConsoleError as] \<Longrightarrow> emits Q (console_error as)"
  by (simp add: console_error_def emits_emit)

lemma emits_await:
  assumes "Q (Normal ()) [Invoke c, Resolved c]" and "\<And>e. Q (Throw e) [Invoke c, Rejected c e]"
  shows "emits Q (await c f)"
  unfolding emits_def
proof
  fix s :: "'a state"
  show "\<exists>evs. trace (snd (await c f s)) = trace s @ evs \<and> Q (kind (fst (await c f s))) evs"
  proof (cases "f (world s)")
    case (Pair r w')
    then show ?thesis using assms by (cases r) (simp_all add: await_def)
  qed
qed

lemma emits_bnd:
  assumes Q: "composable Q" and m: "emits Q m" and f: "\<And>v. emits Q (f v)"
  shows "emits Q (bnd m f)"
  unfolding emits_def
proof
  fix s :: "'a state"
  obtain r s' where ms: "m s = (r, s')" by (cases "m s")
  from m obtain xs where xs: "trace s' = trace s @ xs" "Q (kind r) xs"
    unfolding emits_def using ms by (metis fst_conv snd_conv)
  show "\<exists>evs. trace (snd (bnd m f s)) = trace s @ evs \<and> Q (kind (fst (bnd m f s))) evs"
  proof (cases r)
    case (Normal v)
    obtain r2 s2 where fs: "f v s' = (r2, s2)" by (cases "f v s'")
    from f [of v] obtain ys where ys: "trace s2 = trace s' @ ys" "Q (kind r2) ys"
      unfolding emits_def using fs by (metis fst_conv snd_conv)
    have "Q (kind r2) (xs @ ys)"
      using Q xs(2) ys(2) Normal by (simp add: composable_def)
    then show ?thesis using ms Normal fs xs(1) ys(1) by (auto simp: bnd_def)
  qed (use ms xs in \<open>auto simp: bnd_def\<close>)
qed

lemma emits_seq: "composable Q \<Longrightarrow> emits Q m \<Longrightarrow> emits Q n \<Longrightarrow> emits Q (seq m n)"
  by (simp add: seq_def emits_bnd)

lemma emits_block_Nil: "composable Q \<Longrightarrow> emits Q (block [])"
  by (simp add: emits_ret)

lemma emits_block_Cons:
  "composable Q \<Longrightarrow> emits Q m \<Longrightarrow> emits Q (block ms) \<Longrightarrow> emits Q (block (m # ms))"
  by (simp add: emits_seq)

lemma emits_each: "composable Q \<Longrightarrow> (\<And>x. emits Q (body x)) \<Longrightarrow> emits Q (each xs body)"
  by (induction xs) (simp_all add: emits_ret emits_seq)

lemma emits_get: "composable Q \<Longrightarrow> (\<And>e. Q (Throw e) []) \<Longrightarrow> emits Q (get v p)"
  by (cases v) (simp_all add: emits_ret emits_throw)

lemma emits_for_of:
  "composable Q \<Longrightarrow> (\<And>e. Q (Throw e) []) \<Longrightarrow> (\<And>x. emits Q (body x)) \<Longrightarrow>
   emits Q (for_of src v body)"
  by (cases v) (simp_all add: emits_each emits_throw)

lemma emits_if: "emits Q a \<Longrightarrow> emits Q b \<Longrightarrow> emits Q (if c then a else b)"
  by simp

lemma emits_pending: "composable Q \<Longrightarrow> Q (Normal ()) [Invoke c] \<Longrightarrow> emits Q (pending c)"
  by (simp add: pending_def emits_seq emits_emit emits_ret)

lemmas emits_intros = emits_ret emits_throw emits_return_stmt emits_process_exit
  emits_console_log emits_console_error emits_await emits_bnd emits_seq emits_block_Nil
  emits_block_Cons emits_each emits_get emits_for_of emits_if emits_pending

text \<open>Handlers, for properties of the trace alone.\<close>

lemma emits_call_fn: "trace_only Q \<Longrightarrow> emits Q m \<Longrightarrow> emits Q (call_fn m)"
  unfolding emits_def
proof
  fix s :: "'a state"
  assume t: "trace_only Q" and m: "\<forall>s. \<exists>evs. trace (snd (m s)) = trace s @ evs \<and> Q (kind (fst (m s))) evs"
  obtain r s' where ms: "m s = (r, s')" by (cases "m s")
  from m obtain xs where xs: "trace s' = trace s @ xs" "Q (kind r) xs"
    using ms by (metis fst_conv snd_conv)
  then have "\<And>r'. Q r' xs" using t unfolding trace_only_def by blast
  then show "\<exists>evs. trace (snd (call_fn m s)) = trace s @ evs \<and> Q (kind (fst (call_fn m s))) evs"
    using ms xs(1) by (cases r) (auto simp: call_fn_def)
qed

lemma emits_handler:
  assumes Q: "composable Q" and t: "trace_only Q" and m: "emits Q m" and h: "\<And>e. emits Q (h e)"
  shows "emits Q (try_catch m h)"
  unfolding emits_def
proof
  fix s :: "'a state"
  obtain r s' where ms: "m s = (r, s')" by (cases "m s")
  from m obtain xs where xs: "trace s' = trace s @ xs" "Q (kind r) xs"
    unfolding emits_def using ms by (metis fst_conv snd_conv)
  show "\<exists>evs. trace (snd (try_catch m h s)) = trace s @ evs \<and> Q (kind (fst (try_catch m h s))) evs"
  proof (cases r)
    case (Throw e)
    obtain r2 s2 where hs: "h e s' = (r2, s2)" by (cases "h e s'")
    from h [of e] obtain ys where ys: "trace s2 = trace s' @ ys" "Q (kind r2) ys"
      unfolding emits_def using hs by (metis fst_conv snd_conv)
    have "Q (Normal ()) xs" using t xs(2) unfolding trace_only_def by blast
    then have "Q (kind r2) (xs @ ys)" using Q ys(2) by (simp add: composable_def)
    then show ?thesis using ms Throw hs xs(1) ys(1) by (auto simp: try_catch_def)
  qed (use ms xs in \<open>auto simp: try_catch_def\<close>)
qed

lemma promise_catch_try_catch: "promise_catch p h = try_catch p (\<lambda>e. call_fn (h e))"
  by (rule ext) (simp add: promise_catch_def try_catch_def)

lemma emits_promise_catch:
  "composable Q \<Longrightarrow> trace_only Q \<Longrightarrow> emits Q p \<Longrightarrow> (\<And>e. emits Q (h e)) \<Longrightarrow>
   emits Q (promise_catch p h)"
  by (simp add: promise_catch_try_catch emits_handler emits_call_fn)

lemma emits_promise_finally:
  assumes Q: "composable Q" and t: "trace_only Q" and p: "emits Q p" and f: "emits Q f"
  shows "emits Q (promise_finally p f)"
  unfolding emits_def
proof
  fix s :: "'a state"
  obtain r s' where ps: "p s = (r, s')" by (cases "p s")
  from p obtain xs where xs: "trace s' = trace s @ xs" "Q (kind r) xs"
    unfolding emits_def using ps by (metis fst_conv snd_conv)
  have any: "\<And>r'. Q r' xs" using t xs(2) unfolding trace_only_def by blast
  obtain r2 s2 where fs: "call_fn f s' = (r2, s2)" by (cases "call_fn f s'")
  from emits_call_fn [OF t f] obtain ys where ys: "trace s2 = trace s' @ ys" "Q (kind r2) ys"
    unfolding emits_def using fs by (metis fst_conv snd_conv)
  have "Q (kind r2) (xs @ ys)" using Q any ys(2) by (simp add: composable_def)
  then have all: "\<And>r'. Q r' (xs @ ys)" using t unfolding trace_only_def by blast
  show "\<exists>evs. trace (snd (promise_finally p f s)) = trace s @ evs \<and>
          Q (kind (fst (promise_finally p f s))) evs"
  proof (cases "\<exists>n. r = Halt n")
    case True
    then show ?thesis using ps xs by (auto simp: promise_finally_def)
  next
    case False
    then have "promise_finally p f s = (case r2 of Normal u \<Rightarrow> (r, s2) | _ \<Rightarrow> (r2, s2))"
      using ps fs by (cases r; cases r2) (simp_all add: promise_finally_def)
    then show ?thesis using all xs(1) ys(1) by (cases r2) auto
  qed
qed

lemmas trace_intros = emits_intros emits_call_fn emits_handler emits_promise_catch
  emits_promise_finally

text \<open>
  Statements whose parts have different properties. One statement, then perhaps another:
  the trace is that of the first, or of both.
\<close>

lemma emits_after:
  assumes p: "emits P p" and h: "\<And>x. emits Q (h x)"
    and join: "\<And>r xs r' ys r''. P r xs \<Longrightarrow> Q r' ys \<Longrightarrow> R r'' (xs @ ys)"
    and stop: "\<And>r xs r'. P r xs \<Longrightarrow> R r' xs"
    and shape: "\<And>s. snd (c s) = snd (p s) \<or> (\<exists>x. snd (c s) = snd (h x (snd (p s))))"
  shows "emits R c"
  unfolding emits_def
proof
  fix s :: "'a state"
  from p obtain xs where xs: "trace (snd (p s)) = trace s @ xs" "P (kind (fst (p s))) xs"
    unfolding emits_def by blast
  from shape [of s]
  show "\<exists>evs. trace (snd (c s)) = trace s @ evs \<and> R (kind (fst (c s))) evs"
  proof
    assume "snd (c s) = snd (p s)"
    then show ?thesis using xs stop by auto
  next
    assume "\<exists>x. snd (c s) = snd (h x (snd (p s)))"
    then obtain x where x: "snd (c s) = snd (h x (snd (p s)))" ..
    from h [of x] obtain ys where
      ys: "trace (snd (h x (snd (p s)))) = trace (snd (p s)) @ ys"
        "Q (kind (fst (h x (snd (p s))))) ys"
      unfolding emits_def by blast
    have "R (kind (fst (c s))) (xs @ ys)" using join xs(2) ys(2) by blast
    then show ?thesis using x xs(1) ys(1) by auto
  qed
qed

lemma bnd_shape: "snd (bnd m f s) = snd (m s) \<or> (\<exists>v. snd (bnd m f s) = snd (f v (snd (m s))))"
  by (auto simp: bnd_def split: prod.splits completion.splits)

lemma promise_catch_shape:
  "snd (promise_catch p h s) = snd (p s) \<or>
   (\<exists>e. snd (promise_catch p h s) = snd (call_fn (h e) (snd (p s))))"
  by (auto simp: promise_catch_def split: prod.splits completion.splits)

lemma promise_finally_shape:
  "snd (promise_finally p f s) = snd (p s) \<or>
   (\<exists>u::unit. snd (promise_finally p f s) = snd (call_fn f (snd (p s))))"
  by (auto simp: promise_finally_def split: prod.splits completion.splits)

lemma emits_bnd_after:
  assumes "emits P m" and "\<And>v. emits Q (f v)"
    and "\<And>r xs r' ys r''. P r xs \<Longrightarrow> Q r' ys \<Longrightarrow> R r'' (xs @ ys)"
    and "\<And>r xs r'. P r xs \<Longrightarrow> R r' xs"
  shows "emits R (bnd m f)"
  by (rule emits_after [where p = m and h = f and c = "bnd m f" and P = P and Q = Q])
    (use assms bnd_shape in blast)+

lemma emits_promise_catch_after:
  assumes "emits P p" and "\<And>e. emits Q (call_fn (h e))"
    and "\<And>r xs r' ys r''. P r xs \<Longrightarrow> Q r' ys \<Longrightarrow> R r'' (xs @ ys)"
    and "\<And>r xs r'. P r xs \<Longrightarrow> R r' xs"
  shows "emits R (promise_catch p h)"
  by (rule emits_after [where p = p and h = "\<lambda>e. call_fn (h e)" and c = "promise_catch p h"
        and P = P and Q = Q])
    (use assms promise_catch_shape in blast)+

lemma emits_promise_finally_after:
  assumes "emits P p" and "emits Q (call_fn f)"
    and "\<And>r xs r' ys r''. P r xs \<Longrightarrow> Q r' ys \<Longrightarrow> R r'' (xs @ ys)"
    and "\<And>r xs r'. P r xs \<Longrightarrow> R r' xs"
  shows "emits R (promise_finally p f)"
  by (rule emits_after [where p = p and h = "\<lambda>u::unit. call_fn f" and c = "promise_finally p f"
        and P = P and Q = Q])
    (use assms promise_finally_shape in blast)+


text \<open>Blocks can be cut in two.\<close>

lemma bnd_assoc: "bnd (bnd m f) g = bnd m (\<lambda>x. bnd (f x) g)"
  by (rule ext) (simp add: bnd_def split: prod.splits completion.splits)




section \<open>Rejected calls\<close>

lemma first_rejection_append:
  "first_rejection (xs @ ys) =
     (case first_rejection xs of
        None \<Rightarrow> first_rejection ys
      | Some (c, e, rest) \<Rightarrow> Some (c, e, rest @ ys))"
  by (induction xs rule: first_rejection.induct) simp_all

lemma handled_Normal: "handled L (Normal ()) evs \<Longrightarrow> first_rejection evs = None"
  by (auto simp: handled_def split: option.splits if_splits)

lemma composable_handled: "composable (handled L)"
  unfolding composable_def
proof (intro conjI allI impI)
  show "handled L (Normal ()) []" by (simp add: handled_def)
next
  fix xs r ys
  assume xs: "handled L (Normal ()) xs" and ys: "handled L r ys"
  from xs have "first_rejection xs = None" by (rule handled_Normal)
  then have "first_rejection (xs @ ys) = first_rejection ys"
    by (simp add: first_rejection_append)
  with ys show "handled L r (xs @ ys)" by (simp add: handled_def)
qed

lemma handled_simps [simp]:
  "handled L r []"
  "handled L r [ConsoleLog as]"
  "handled L r [Invoke c]"
  "handled L r [Invoke c, Resolved c]"
  "method_of c \<notin> L \<Longrightarrow> handled L (Throw e) [Invoke c, Rejected c e]"
  by (simp_all add: handled_def)

lemma queries_main_handled: "emits (handled {}) (queries_main prisma)"
  unfolding queries_main_def call_defs
  by (intro emits_intros composable_handled) simp_all

lemma example_queries_main_handled: "emits (handled {}) (example_queries_main prisma)"
  unfolding example_queries_main_def call_defs
  by (intro emits_intros composable_handled) simp_all

lemma runAllExamples_handled: "emits (handled {}) (runAllExamples prisma now)"
  unfolding runAllExamples_def call_defs
  by (intro emits_intros composable_handled) simp_all

lemma verify_connect_handled:
  "emits (handled {Connect, Count})
     (try_catch (block [client_connect prisma, console_log as])
        (\<lambda>e. block [console_log [Val (JStr msg), Val e], return_stmt]))"
  unfolding emits_def
proof
  fix s :: "'a state"
  show "\<exists>evs. trace (snd (try_catch (block [client_connect prisma, console_log as])
           (\<lambda>e. block [console_log [Val (JStr msg), Val e], return_stmt]) s)) = trace s @ evs \<and>
         handled {Connect, Count}
           (kind (fst (try_catch (block [client_connect prisma, console_log as])
             (\<lambda>e. block [console_log [Val (JStr msg), Val e], return_stmt]) s))) evs"
  proof (cases "connect prisma (world s)")
    case (Pair r w')
    then show ?thesis by (cases r) (simp_all add: js_defs call_defs handled_def)
  qed
qed

lemma verify_counts_handled:
  "emits (handled {Connect, Count})
     (try_catch
        (bnd (user_count prisma a) (\<lambda>userCount.
         bnd (post_count prisma b) (\<lambda>postCount. block [console_log (f userCount), console_log (g postCount)])))
        (\<lambda>e. block [console_log [Val (JStr msg), Val e], return_stmt]))"
  unfolding emits_def
proof
  fix s :: "'a state"
  let ?m = "try_catch
        (bnd (user_count prisma a) (\<lambda>userCount.
         bnd (post_count prisma b) (\<lambda>postCount. block [console_log (f userCount), console_log (g postCount)])))
        (\<lambda>e. block [console_log [Val (JStr msg), Val e], return_stmt])"
  show "\<exists>evs. trace (snd (?m s)) = trace s @ evs \<and> handled {Connect, Count} (kind (fst (?m s))) evs"
  proof (cases "count (user prisma) a (world s)")
    case (Pair r w')
    show ?thesis
    proof (cases r)
      case (Inl e)
      with Pair show ?thesis by (simp add: js_defs call_defs handled_def)
    next
      case (Inr n)
      show ?thesis
      proof (cases "count (post prisma) b w'")
        case (Pair r2 w2)
        then show ?thesis using \<open>count (user prisma) a (world s) = (r, w')\<close> Inr
          by (cases r2) (simp_all add: js_defs call_defs handled_def)
      qed
    qed
  qed
qed

lemma verify_handled: "emits (handled {Connect, Count}) (verify prisma)"
  unfolding verify_def call_defs
  by (intro emits_intros composable_handled verify_connect_handled [unfolded call_defs]
        verify_counts_handled [unfolded call_defs])
    simp_all

section \<open>A rejected call inside the function\<close>

lemma call_fn_handled:
  assumes "emits (handled L) body"
    and "first_rejection (events (call_fn body) w) = Some (c, e, rest)"
  shows "if method_of c \<in> L
         then outcome (call_fn body) w = Normal () \<and>
              (\<exists>msg. rest = [ConsoleLog [Val (JStr msg), Val e]])
         else outcome (call_fn body) w = Throw e \<and> rest = []"
proof -
  obtain r s where run: "body \<lparr>world = w, trace = []\<rparr> = (r, s)"
    by (cases "body \<lparr>world = w, trace = []\<rparr>")
  have h: "handled L (kind r) (trace s)"
    using emits_run [OF assms(1), of w] run by (simp add: outcome_def events_def run_def)
  from run assms(2) h show ?thesis
    by (cases r) (auto simp: js_defs handled_def split: if_splits)
qed

text \<open>
  Claim C5, as stated: no script handles an error locally; every error of the ORM reaches
  the top-level handler of the script. In the verification script a rejected
  \<open>$connect\<close> is caught by the try/catch around it: \<open>verify\<close> prints it with
  \<open>console.log\<close> and returns, its promise is fulfilled, and the top-level handler
  (\<open>console.error\<close>) never runs.
\<close>

theorem verify_connect_rejection_stays_inside:
  "first_rejection (events (verify_script (stub_client (Some 0))) 0) =
     Some (Call Client Connect JUndefined,
           JError ''PrismaClientKnownRequestError'' ''request failed'',
           [ConsoleLog [Val (JStr ''   [x] Connection failed:''),
                        Val (JError ''PrismaClientKnownRequestError'' ''request failed'')],
            Invoke (Call Client Disconnect JUndefined),
            Resolved (Call Client Disconnect JUndefined)]) \<and>
   outcome (call_fn (verify (stub_client (Some 0)))) 0 = Normal ()"
  by (simp add: script_defs js_defs call_defs stub_defs)

text \<open>
  Claim C5, amended: \<open>main\<close> of queries.ts, \<open>main\<close> of example-queries.ts and
  \<open>runAllExamples\<close> have no inner try/catch: the first call that rejects ends the
  function at once, nothing is retried or printed, and the promise of the function rejects
  with the value raised. \<open>verify\<close> encloses \<open>$connect\<close> and the two counts in
  try/catch blocks: when one of them rejects, the value raised is printed with
  \<open>console.log\<close> and \<open>verify\<close> returns, its promise fulfilled, with no retry and no
  further call; a rejected \<open>findMany\<close> ends \<open>verify\<close> like the other three.
\<close>

theorem rejection_inside_function:
  "(first_rejection (events (call_fn (queries_main prisma)) w) = Some (c, e, rest) \<longrightarrow>
      outcome (call_fn (queries_main prisma)) w = Throw e \<and> rest = []) \<and>
   (first_rejection (events (call_fn (example_queries_main prisma)) w) = Some (c, e, rest) \<longrightarrow>
      outcome (call_fn (example_queries_main prisma)) w = Throw e \<and> rest = []) \<and>
   (first_rejection (events (call_fn (runAllExamples prisma now)) w) = Some (c, e, rest) \<longrightarrow>
      outcome (call_fn (runAllExamples prisma now)) w = Throw e \<and> rest = []) \<and>
   (first_rejection (events (call_fn (verify prisma)) w) = Some (c, e, rest) \<longrightarrow>
      (if method_of c \<in> {Connect, Count}
       then outcome (call_fn (verify prisma)) w = Normal () \<and>
            (\<exists>msg. rest = [ConsoleLog [Val (JStr msg), Val e]])
       else outcome (call_fn (verify prisma)) w = Throw e \<and> rest = []))"
  using call_fn_handled [OF queries_main_handled, of prisma w c e rest]
    call_fn_handled [OF example_queries_main_handled, of prisma w c e rest]
    call_fn_handled [OF runAllExamples_handled, of prisma now w c e rest]
    call_fn_handled [OF verify_handled, of prisma w c e rest]
  by simp

text \<open>
  On the test client: the third call of queries.ts, the delete of example-queries.ts, the
  transaction of the advanced examples, and the count of posts and the \<open>findMany\<close> of
  the verification script reject.
\<close>

lemma stub_function_rejections:
  "first_rejection (events (call_fn (queries_main (stub_client (Some 2)))) 0) =
     Some (Call User FindMany (JObj [(''include'', JObj [(''posts'', JBool True)])]),
           JError ''PrismaClientKnownRequestError'' ''request failed'', [])"
  "first_rejection (events (call_fn (example_queries_main (stub_client (Some 5)))) 0) =
     Some (Call User Delete (JObj [(''where'', JObj [(''email'', JStr ''charlie@prisma.io'')])]),
           JError ''PrismaClientKnownRequestError'' ''request failed'', [])"
  "first_rejection (events (call_fn (runAllExamples (stub_client (Some 13)) 0)) 0) =
     Some (Batch [transaction_user_update, transaction_post_create],
           JError ''PrismaClientKnownRequestError'' ''request failed'', [])"
  "first_rejection (events (call_fn (verify (stub_client (Some 2)))) 0) =
     Some (Call Post Count JUndefined,
           JError ''PrismaClientKnownRequestError'' ''request failed'',
           [ConsoleLog [Val (JStr ''   [x] Failed to query:''),
                        Val (JError ''PrismaClientKnownRequestError'' ''request failed'')]])"
  "first_rejection (events (call_fn (verify (stub_client (Some 3)))) 0) =
     Some (Call User FindMany (JObj [(''include'', JObj [(''posts'', JBool True)])]),
           JError ''PrismaClientKnownRequestError'' ''request failed'', [])"
  by (simp_all add: queries_main_def example_queries_main_def verify_def runAllExamples_def
      js_defs call_defs stub_defs)

theorem rejection_inside_function_witness:
  "first_rejection (events (call_fn (queries_main (stub_client (Some 2)))) 0) =
     Some (Call User FindMany (JObj [(''include'', JObj [(''posts'', JBool True)])]),
           JError ''PrismaClientKnownRequestError'' ''request failed'', []) \<and>
   outcome (call_fn (queries_main (stub_client (Some 2)))) 0 =
     Throw (JError ''PrismaClientKnownRequestError'' ''request failed'') \<and>
   first_rejection (events (call_fn (example_queries_main (stub_client (Some 5)))) 0) =
     Some (Call User Delete (JObj [(''where'', JObj [(''email'', JStr ''charlie@prisma.io'')])]),
           JError ''PrismaClientKnownRequestError'' ''request failed'', []) \<and>
   outcome (call_fn (example_queries_main (stub_client (Some 5)))) 0 =
     Throw (JError ''PrismaClientKnownRequestError'' ''request failed'') \<and>
   first_rejection (events (call_fn (runAllExamples (stub_client (Some 13)) 0)) 0) =
     Some (Batch [transaction_user_update, transaction_post_create],
           JError ''PrismaClientKnownRequestError'' ''request failed'', []) \<and>
   outcome (call_fn (runAllExamples (stub_client (Some 13)) 0)) 0 =
     Throw (JError ''PrismaClientKnownRequestError'' ''request failed'') \<and>
   first_rejection (events (call_fn (verify (stub_client (Some 2)))) 0) =
     Some (Call Post Count JUndefined,
           JError ''PrismaClientKnownRequestError'' ''request failed'',
           [ConsoleLog [Val (JStr ''   [x] Failed to query:''),
                        Val (JError ''PrismaClientKnownRequestError'' ''request failed'')]]) \<and>
   outcome (call_fn (verify (stub_client (Some 2)))) 0 = Normal () \<and>
   first_rejection (events (call_fn (verify (stub_client (Some 3)))) 0) =
     Some (Call User FindMany (JObj [(''include'', JObj [(''posts'', JBool True)])]),
           JError ''PrismaClientKnownRequestError'' ''request failed'', []) \<and>
   outcome (call_fn (verify (stub_client (Some 3)))) 0 =
     Throw (JError ''PrismaClientKnownRequestError'' ''request failed'')"
proof -
  have "outcome (call_fn (queries_main (stub_client (Some 2)))) 0 =
     Throw (JError ''PrismaClientKnownRequestError'' ''request failed'')"
    using rejection_inside_function [THEN conjunct1, THEN mp, OF stub_function_rejections(1)] by simp
  moreover have "outcome (call_fn (example_queries_main (stub_client (Some 5)))) 0 =
     Throw (JError ''PrismaClientKnownRequestError'' ''request failed'')"
    using rejection_inside_function [THEN conjunct2, THEN conjunct1, THEN mp, OF stub_function_rejections(2)]
    by simp
  moreover have "outcome (call_fn (runAllExamples (stub_client (Some 13)) 0)) 0 =
     Throw (JError ''PrismaClientKnownRequestError'' ''request failed'')"
    using rejection_inside_function [THEN conjunct2, THEN conjunct2, THEN conjunct1, THEN mp,
        OF stub_function_rejections(3)]
    by simp
  moreover have "outcome (call_fn (verify (stub_client (Some 2)))) 0 = Normal ()"
    using rejection_inside_function [THEN conjunct2, THEN conjunct2, THEN conjunct2, THEN mp,
        OF stub_function_rejections(4)]
    by simp
  moreover have "outcome (call_fn (verify (stub_client (Some 3)))) 0 =
     Throw (JError ''PrismaClientKnownRequestError'' ''request failed'')"
    using rejection_inside_function [THEN conjunct2, THEN conjunct2, THEN conjunct2, THEN mp,
        OF stub_function_rejections(5)]
    by simp
  ultimately show ?thesis
    using stub_function_rejections by (intro conjI)
qed

section \<open>A rejected call and the top-level handler\<close>

lemma exiting_script:
  assumes body: "emits (handled {}) body"
    and first: "first_rejection
       (events (promise_finally
                  (promise_catch (call_fn body) (\<lambda>e. block [console_error (pr e), process_exit 1]))
                  (client_disconnect prisma)) w) = Some (c, e, rest)"
    and c: "method_of c \<noteq> Disconnect"
  shows "rest = [ConsoleError (pr e)] \<and>
         outcome (promise_finally
                  (promise_catch (call_fn body) (\<lambda>e. block [console_error (pr e), process_exit 1]))
                  (client_disconnect prisma)) w = Halt 1"
proof -
  obtain r s where run: "body \<lparr>world = w, trace = []\<rparr> = (r, s)"
    by (cases "body \<lparr>world = w, trace = []\<rparr>")
  have h: "handled {} (kind r) (trace s)"
    using emits_run [OF body, of w] run by (simp add: outcome_def events_def run_def)
  obtain d w' where dis: "disconnect prisma (world s) = (d, w')"
    by (cases "disconnect prisma (world s)")
  show ?thesis
  proof (cases r)
    case (Throw e')
    with run first h show ?thesis
      by (auto simp: js_defs call_defs handled_def first_rejection_append
          split: option.splits)
  next
    case (Normal v)
    with run first h c dis show ?thesis
      by (cases d) (auto simp: js_defs call_defs handled_def first_rejection_append
          split: option.splits)
  next
    case Return
    with run first h c dis show ?thesis
      by (cases d) (auto simp: js_defs call_defs handled_def first_rejection_append
          split: option.splits)
  next
    case (Halt n)
    with run first h c show ?thesis
      by (auto simp: js_defs call_defs handled_def first_rejection_append
          split: option.splits)
  qed
qed

lemma printing_script:
  assumes body: "emits (handled L) body"
    and first: "first_rejection
       (events (promise_finally
                  (promise_catch (call_fn body) (\<lambda>e. console_error [Val e]))
                  (client_disconnect prisma)) w) = Some (c, e, rest)"
    and c: "method_of c \<notin> L" "method_of c \<noteq> Disconnect"
  shows "(rest = [ConsoleError [Val e], Invoke (Call Client Disconnect JUndefined),
                  Resolved (Call Client Disconnect JUndefined)] \<and>
          outcome (promise_finally
                  (promise_catch (call_fn body) (\<lambda>e. console_error [Val e]))
                  (client_disconnect prisma)) w = Normal ()) \<or>
         (\<exists>e'. rest = [ConsoleError [Val e], Invoke (Call Client Disconnect JUndefined),
                  Rejected (Call Client Disconnect JUndefined) e'] \<and>
          outcome (promise_finally
                  (promise_catch (call_fn body) (\<lambda>e. console_error [Val e]))
                  (client_disconnect prisma)) w = Throw e')"
proof -
  obtain r s where run: "body \<lparr>world = w, trace = []\<rparr> = (r, s)"
    by (cases "body \<lparr>world = w, trace = []\<rparr>")
  have h: "handled L (kind r) (trace s)"
    using emits_run [OF body, of w] run by (simp add: outcome_def events_def run_def)
  obtain d w' where dis: "disconnect prisma (world s) = (d, w')"
    by (cases "disconnect prisma (world s)")
  show ?thesis
  proof (cases r)
    case (Throw e')
    with run first h c dis show ?thesis
      by (cases d) (auto simp: js_defs call_defs handled_def first_rejection_append
          split: option.splits if_splits)
  next
    case (Normal v)
    with run first h c dis show ?thesis
      by (cases d) (auto simp: js_defs call_defs handled_def first_rejection_append
          split: option.splits if_splits)
  next
    case Return
    with run first h c dis show ?thesis
      by (cases d) (auto simp: js_defs call_defs handled_def first_rejection_append
          split: option.splits if_splits)
  next
    case (Halt n)
    with run first h c show ?thesis
      by (auto simp: js_defs call_defs handled_def first_rejection_append
          split: option.splits if_splits)
  qed
qed

lemma queries_rejection:
  assumes a: "first_rejection (events (queries_script prisma) w) = Some (c, e, rest)"
    and b: "method_of c \<noteq> Disconnect"
  shows "rest = [ConsoleError [Val e]] \<and> exit_status (outcome (queries_script prisma) w) = 1"
proof -
  have "rest = [ConsoleError [Val e]] \<and> outcome (queries_script prisma) w = Halt 1"
    unfolding queries_script_def
    by (rule exiting_script [OF queries_main_handled a [unfolded queries_script_def] b])
  then show ?thesis by simp
qed

lemma example_queries_rejection:
  assumes a: "first_rejection (events (example_queries_script prisma) w) = Some (c, e, rest)"
    and b: "method_of c \<noteq> Disconnect"
  shows "rest = [ConsoleError [Val (JStr ''Error:''), Val e]] \<and>
      exit_status (outcome (example_queries_script prisma) w) = 1"
proof -
  have "rest = [ConsoleError [Val (JStr ''Error:''), Val e]] \<and>
      outcome (example_queries_script prisma) w = Halt 1"
    unfolding example_queries_script_def
    by (rule exiting_script
        [OF example_queries_main_handled a [unfolded example_queries_script_def] b])
  then show ?thesis by simp
qed

lemma advanced_rejection:
  assumes a: "first_rejection (events (advanced_script prisma now) w) = Some (c, e, rest)"
    and b: "method_of c \<noteq> Disconnect"
  shows "(rest = [ConsoleError [Val e], Invoke (Call Client Disconnect JUndefined),
               Resolved (Call Client Disconnect JUndefined)] \<and>
       exit_status (outcome (advanced_script prisma now) w) = 0) \<or>
      (\<exists>e'. rest = [ConsoleError [Val e], Invoke (Call Client Disconnect JUndefined),
                     Rejected (Call Client Disconnect JUndefined) e'] \<and>
            outcome (advanced_script prisma now) w = Throw e')"
proof -
  have "(rest = [ConsoleError [Val e], Invoke (Call Client Disconnect JUndefined),
               Resolved (Call Client Disconnect JUndefined)] \<and>
       outcome (advanced_script prisma now) w = Normal ()) \<or>
      (\<exists>e'. rest = [ConsoleError [Val e], Invoke (Call Client Disconnect JUndefined),
                     Rejected (Call Client Disconnect JUndefined) e'] \<and>
            outcome (advanced_script prisma now) w = Throw e')"
    unfolding advanced_script_def
    by (rule printing_script [OF runAllExamples_handled a [unfolded advanced_script_def] _ b])
      simp
  then show ?thesis by auto
qed

lemma verify_rejection:
  assumes a: "first_rejection (events (verify_script prisma) w) = Some (c, e, rest)"
    and b: "method_of c = FindMany"
  shows "(rest = [ConsoleError [Val e], Invoke (Call Client Disconnect JUndefined),
               Resolved (Call Client Disconnect JUndefined)] \<and>
       exit_status (outcome (verify_script prisma) w) = 0) \<or>
      (\<exists>e'. rest = [ConsoleError [Val e], Invoke (Call Client Disconnect JUndefined),
                     Rejected (Call Client Disconnect JUndefined) e'] \<and>
            outcome (verify_script prisma) w = Throw e')"
proof -
  have "(rest = [ConsoleError [Val e], Invoke (Call Client Disconnect JUndefined),
               Resolved (Call Client Disconnect JUndefined)] \<and>
       outcome (verify_script prisma) w = Normal ()) \<or>
      (\<exists>e'. rest = [ConsoleError [Val e], Invoke (Call Client Disconnect JUndefined),
                     Rejected (Call Client Disconnect JUndefined) e'] \<and>
            outcome (verify_script prisma) w = Throw e')"
    unfolding verify_script_def
    by (rule printing_script [OF verify_handled a [unfolded verify_script_def]])
      (simp_all add: b)
  then show ?thesis by auto
qed

text \<open>
  Claim C1, as stated: in every script an error raised by an ORM call is caught by the
  top-level handler, which prints it and makes the process exit with a non-zero status.
  In the advanced examples the handler is \<open>console.error\<close> alone: when the first
  \<open>findMany\<close> rejects, the error is printed, \<open>$disconnect\<close> resolves and the
  process ends with status 0.
\<close>

theorem advanced_rejection_exits_zero:
  "map_option (\<lambda>x. method_of (fst x))
     (first_rejection (events (advanced_script (stub_client (Some 0)) 0) 0)) = Some FindMany \<and>
   exit_status (outcome (advanced_script (stub_client (Some 0)) 0) 0) = 0"
  by (simp add: script_defs js_defs call_defs stub_defs)

text \<open>
  Claim C1, amended: in every script, an error raised by a call that no try/catch encloses
  (any call of the function in queries.ts, example-queries.ts and the advanced examples;
  \<open>findMany\<close> in the verification script) is caught by the single top-level handler,
  which prints it with \<open>console.error\<close> before anything else happens. In queries.ts
  and example-queries.ts the handler then ends the process with status 1. In the advanced
  examples and the verification script the handler only prints: \<open>$disconnect\<close> is
  called next, and when it resolves the process ends with status 0.
\<close>

theorem rejection_at_top_level:
  "(first_rejection (events (queries_script prisma) w) = Some (c, e, rest) \<and>
    method_of c \<noteq> Disconnect \<longrightarrow>
      (\<exists>more. rest = ConsoleError [Val e] # more) \<and>
      exit_status (outcome (queries_script prisma) w) = 1) \<and>
   (first_rejection (events (example_queries_script prisma) w) = Some (c, e, rest) \<and>
    method_of c \<noteq> Disconnect \<longrightarrow>
      (\<exists>more. rest = ConsoleError [Val (JStr ''Error:''), Val e] # more) \<and>
      exit_status (outcome (example_queries_script prisma) w) = 1) \<and>
   (first_rejection (events (advanced_script prisma now) w) = Some (c, e, rest) \<and>
    method_of c \<noteq> Disconnect \<longrightarrow>
      (rest = [ConsoleError [Val e], Invoke (Call Client Disconnect JUndefined),
               Resolved (Call Client Disconnect JUndefined)] \<and>
       exit_status (outcome (advanced_script prisma now) w) = 0) \<or>
      (\<exists>e'. rest = [ConsoleError [Val e], Invoke (Call Client Disconnect JUndefined),
                     Rejected (Call Client Disconnect JUndefined) e'] \<and>
            outcome (advanced_script prisma now) w = Throw e')) \<and>
   (first_rejection (events (verify_script prisma) w) = Some (c, e, rest) \<and>
    method_of c = FindMany \<longrightarrow>
      (rest = [ConsoleError [Val e], Invoke (Call Client Disconnect JUndefined),
               Resolved (Call Client Disconnect JUndefined)] \<and>
       exit_status (outcome (verify_script prisma) w) = 0) \<or>
      (\<exists>e'. rest = [ConsoleError [Val e], Invoke (Call Client Disconnect JUndefined),
                     Rejected (Call Client Disconnect JUndefined) e'] \<and>
            outcome (verify_script prisma) w = Throw e'))"
  using queries_rejection [of prisma w c e rest] example_queries_rejection [of prisma w c e rest]
    advanced_rejection [of prisma now w c e rest] verify_rejection [of prisma w c e rest]
  by blast

text \<open>
  On the test client: the second call of queries.ts and of example-queries.ts, the first
  count of the advanced examples and the \<open>findMany\<close> of the verification script
  reject.
\<close>

lemma stub_first_rejections:
  "first_rejection (events (queries_script (stub_client (Some 1))) 0) =
     Some (Call User Create
            (JObj [(''data'', JObj
               [(''email'', JStr ''bob@prisma.io''),
                (''name'', JStr ''Bob''),
                (''posts'', JObj [(''create'', JObj
                   [(''title'', JStr ''Bob's first post''),
                    (''content'', JStr ''Nice to meet you!''),
                    (''published'', JBool True)])])])]),
           JError ''PrismaClientKnownRequestError'' ''request failed'',
           [ConsoleError [Val (JError ''PrismaClientKnownRequestError'' ''request failed'')]])"
  "first_rejection (events (example_queries_script (stub_client (Some 1))) 0) =
     Some (Call User FindMany JUndefined,
           JError ''PrismaClientKnownRequestError'' ''request failed'',
           [ConsoleError [Val (JStr ''Error:''),
                          Val (JError ''PrismaClientKnownRequestError'' ''request failed'')]])"
  "first_rejection (events (advanced_script (stub_client (Some 7)) 0) 0) =
     Some (Call User Count JUndefined,
           JError ''PrismaClientKnownRequestError'' ''request failed'',
           [ConsoleError [Val (JError ''PrismaClientKnownRequestError'' ''request failed'')],
            Invoke (Call Client Disconnect JUndefined),
            Resolved (Call Client Disconnect JUndefined)])"
  "first_rejection (events (verify_script (stub_client (Some 3))) 0) =
     Some (Call User FindMany (JObj [(''include'', JObj [(''posts'', JBool True)])]),
           JError ''PrismaClientKnownRequestError'' ''request failed'',
           [ConsoleError [Val (JError ''PrismaClientKnownRequestError'' ''request failed'')],
            Invoke (Call Client Disconnect JUndefined),
            Resolved (Call Client Disconnect JUndefined)])"
  by (simp_all add: script_defs js_defs call_defs stub_defs)

theorem rejection_at_top_level_witness:
  "first_rejection (events (queries_script (stub_client (Some 1))) 0) =
     Some (Call User Create
            (JObj [(''data'', JObj
               [(''email'', JStr ''bob@prisma.io''),
                (''name'', JStr ''Bob''),
                (''posts'', JObj [(''create'', JObj
                   [(''title'', JStr ''Bob's first post''),
                    (''content'', JStr ''Nice to meet you!''),
                    (''published'', JBool True)])])])]),
           JError ''PrismaClientKnownRequestError'' ''request failed'',
           [ConsoleError [Val (JError ''PrismaClientKnownRequestError'' ''request failed'')]]) \<and>
   exit_status (outcome (queries_script (stub_client (Some 1))) 0) = 1 \<and>
   first_rejection (events (example_queries_script (stub_client (Some 1))) 0) =
     Some (Call User FindMany JUndefined,
           JError ''PrismaClientKnownRequestError'' ''request failed'',
           [ConsoleError [Val (JStr ''Error:''),
                          Val (JError ''PrismaClientKnownRequestError'' ''request failed'')]]) \<and>
   exit_status (outcome (example_queries_script (stub_client (Some 1))) 0) = 1 \<and>
   first_rejection (events (advanced_script (stub_client (Some 7)) 0) 0) =
     Some (Call User Count JUndefined,
           JError ''PrismaClientKnownRequestError'' ''request failed'',
           [ConsoleError [Val (JError ''PrismaClientKnownRequestError'' ''request failed'')],
            Invoke (Call Client Disconnect JUndefined),
            Resolved (Call Client Disconnect JUndefined)]) \<and>
   exit_status (outcome (advanced_script (stub_client (Some 7)) 0) 0) = 0 \<and>
   first_rejection (events (verify_script (stub_client (Some 3))) 0) =
     Some (Call User FindMany (JObj [(''include'', JObj [(''posts'', JBool True)])]),
           JError ''PrismaClientKnownRequestError'' ''request failed'',
           [ConsoleError [Val (JError ''PrismaClientKnownRequestError'' ''request failed'')],
            Invoke (Call Client Disconnect JUndefined),
            Resolved (Call Client Disconnect JUndefined)]) \<and>
   exit_status (outcome (verify_script (stub_client (Some 3))) 0) = 0"
proof -
  have "exit_status (outcome (queries_script (stub_client (Some 1))) 0) = 1"
    using rejection_at_top_level
      [THEN conjunct1, THEN mp, OF conjI, OF stub_first_rejections(1)]
    by simp
  moreover have "exit_status (outcome (example_queries_script (stub_client (Some 1))) 0) = 1"
    using rejection_at_top_level
      [THEN conjunct2, THEN conjunct1, THEN mp, OF conjI, OF stub_first_rejections(2)]
    by simp
  moreover have "exit_status (outcome (advanced_script (stub_client (Some 7)) 0) 0) = 0"
    using rejection_at_top_level
      [THEN conjunct2, THEN conjunct2, THEN conjunct1, THEN mp, OF conjI,
       OF stub_first_rejections(3)]
    by simp
  moreover have "exit_status (outcome (verify_script (stub_client (Some 3))) 0) = 0"
    using rejection_at_top_level
      [THEN conjunct2, THEN conjunct2, THEN conjunct2, THEN mp, OF conjI,
       OF stub_first_rejections(4)]
    by simp
  ultimately show ?thesis
    using stub_first_rejections by (intro conjI)
qed

section \<open>Which methods are called\<close>




lemma calls_within_simps [simp]:
  "calls_within M r []"
  "calls_within M r [ConsoleLog as]"
  "calls_within M r [ConsoleError as]"
  "calls_within M r [Invoke c] = (method_of c \<in> M)"
  "calls_within M r [Invoke c, Resolved c'] = (method_of c \<in> M)"
  "calls_within M r [Invoke c, Rejected c' e] = (method_of c \<in> M)"
  by (simp_all add: calls_within_def)
































lemma anything_simp [simp]: "anything r evs"
  by (simp add: anything_def)










section \<open>One call at a time\<close>

lemma sequential_append: "sequential xs \<Longrightarrow> sequential ys \<Longrightarrow> sequential (xs @ ys)"
  by (induction xs rule: sequential.induct) simp_all

lemma composable_in_sequence: "composable in_sequence"
  by (simp add: composable_def in_sequence_def sequential_append)

lemma trace_only_in_sequence: "trace_only in_sequence"
  by (simp add: trace_only_def in_sequence_def)

lemma in_sequence_simps [simp]:
  "in_sequence r []"
  "in_sequence r [ConsoleLog as]"
  "in_sequence r [ConsoleError as]"
  "in_sequence r [Invoke c, Resolved c]"
  "in_sequence r [Invoke c, Rejected c e]"
  by (simp_all add: in_sequence_def)

lemmas sequence_intros = trace_intros composable_in_sequence trace_only_in_sequence

lemma queries_in_sequence: "emits in_sequence (queries_script prisma)"
  unfolding queries_script_def queries_main_def call_defs
  by (intro sequence_intros) simp_all

lemma example_queries_in_sequence: "emits in_sequence (example_queries_script prisma)"
  unfolding example_queries_script_def example_queries_main_def call_defs
  by (intro sequence_intros) simp_all

lemma verify_in_sequence: "emits in_sequence (verify_script prisma)"
  unfolding verify_script_def verify_def call_defs
  by (intro sequence_intros) simp_all

text \<open>
  The advanced examples: what comes before step 8, step 8, and what comes after it.
\<close>

lemma composable_before_transaction: "composable before_transaction"
  by (simp add: composable_def before_transaction_def sequential_append)

lemma trace_only_before_transaction: "trace_only before_transaction"
  by (simp add: trace_only_def before_transaction_def)

lemma before_transaction_simps [simp]:
  "before_transaction r []"
  "as \<noteq> [Val (JStr ''\<newline>8. TRANSACTION'')] \<Longrightarrow> before_transaction r [ConsoleLog as]"
  "before_transaction r [ConsoleError as]"
  "before_transaction r [Invoke c, Resolved c]"
  "before_transaction r [Invoke c, Rejected c e]"
  by (simp_all add: before_transaction_def)

lemma before_then_around:
  "before_transaction r xs \<Longrightarrow> around_transaction r' ys \<Longrightarrow> around_transaction r'' (xs @ ys)"
  unfolding around_transaction_def before_transaction_def through_transaction_def
proof (elim conjE disjE exE)
  fix before settled after
  assume "sequential xs" "ys = before @ transaction_step settled @ after"
    "sequential before" "sequential after"
    "settles (Batch [transaction_user_update, transaction_post_create]) settled"
  then have "xs @ ys = (xs @ before) @ transaction_step settled @ after \<and>
    sequential (xs @ before) \<and> sequential after \<and>
    settles (Batch [transaction_user_update, transaction_post_create]) settled"
    by (simp add: sequential_append)
  then show "sequential (xs @ ys) \<and> ConsoleLog [Val (JStr ''\<newline>8. TRANSACTION'')] \<notin> set (xs @ ys) \<or>
    (\<exists>before settled after. xs @ ys = before @ transaction_step settled @ after \<and>
       sequential before \<and> sequential after \<and>
       settles (Batch [transaction_user_update, transaction_post_create]) settled)"
    by blast
qed (simp add: sequential_append)

lemma through_then_sequence:
  "through_transaction r xs \<Longrightarrow> in_sequence r' ys \<Longrightarrow> through_transaction r'' (xs @ ys)"
  unfolding through_transaction_def in_sequence_def
proof (elim exE conjE)
  fix before settled after
  assume "sequential ys" "xs = before @ transaction_step settled @ after"
    "sequential before" "sequential after"
    "settles (Batch [transaction_user_update, transaction_post_create]) settled"
  then have "xs @ ys = before @ transaction_step settled @ (after @ ys) \<and>
    sequential before \<and> sequential (after @ ys) \<and>
    settles (Batch [transaction_user_update, transaction_post_create]) settled"
    by (simp add: sequential_append)
  then show "\<exists>before settled after. xs @ ys = before @ transaction_step settled @ after \<and>
       sequential before \<and> sequential after \<and>
       settles (Batch [transaction_user_update, transaction_post_create]) settled"
    by blast
qed

lemma around_then_before:
  "around_transaction r xs \<Longrightarrow> before_transaction r' ys \<Longrightarrow> around_transaction r'' (xs @ ys)"
  unfolding around_transaction_def
proof (elim disjE)
  assume "before_transaction r xs" "before_transaction r' ys"
  then show "before_transaction r'' (xs @ ys) \<or> through_transaction r'' (xs @ ys)"
    by (simp add: before_transaction_def sequential_append)
next
  assume "through_transaction r xs" "before_transaction r' ys"
  then show "before_transaction r'' (xs @ ys) \<or> through_transaction r'' (xs @ ys)"
    using through_then_sequence [of r xs r' ys r'']
    by (simp add: before_transaction_def in_sequence_def)
qed

lemma through_transactionI:
  "sequential before \<Longrightarrow> sequential after \<Longrightarrow>
   settles (Batch [transaction_user_update, transaction_post_create]) settled \<Longrightarrow>
   through_transaction r (before @ transaction_step settled @ after)"
  unfolding through_transaction_def by blast

text \<open>Step 8 itself.\<close>

lemma emits_transaction_step:
  "emits through_transaction
     (seq (console_log [Val (JStr ''\<newline>8. TRANSACTION'')])
     (seq (console_log [Val (JStr ''-------------'')])
       (bnd (pending transaction_user_update)
         (\<lambda>p1.
       bnd (pending transaction_post_create)
         (\<lambda>p2.
       bnd (await (Batch [p1, p2]) (transaction prisma [p1, p2]))
         (\<lambda>results.
          console_log [Val (JStr ''   Transaction completed: User updated + Post created'')]))))))"
  unfolding emits_def
proof
  fix s :: "'a state"
  let ?tx = "Batch [transaction_user_update, transaction_post_create]"
  let ?m = "seq (console_log [Val (JStr ''\<newline>8. TRANSACTION'')])
     (seq (console_log [Val (JStr ''-------------'')])
       (bnd (pending transaction_user_update)
         (\<lambda>p1.
       bnd (pending transaction_post_create)
         (\<lambda>p2.
       bnd (await (Batch [p1, p2]) (transaction prisma [p1, p2]))
         (\<lambda>results.
          console_log [Val (JStr ''   Transaction completed: User updated + Post created'')])))))"
  obtain r w' where f: "transaction prisma [transaction_user_update, transaction_post_create]
      (world s) = (r, w')"
    by (cases "transaction prisma [transaction_user_update, transaction_post_create] (world s)")
  show "\<exists>evs. trace (snd (?m s)) = trace s @ evs \<and> through_transaction (kind (fst (?m s))) evs"
  proof (cases r)
    case (Inl e)
    then have "trace (snd (?m s)) = trace s @ [] @ transaction_step (Rejected ?tx e) @ []"
      using f by (simp add: js_defs transaction_step_def)
    moreover have "through_transaction (kind (fst (?m s)))
        ([] @ transaction_step (Rejected ?tx e) @ [])"
      by (rule through_transactionI) simp_all
    ultimately show ?thesis by (intro exI conjI)
  next
    case (Inr v)
    then have "trace (snd (?m s)) = trace s @ [] @ transaction_step (Resolved ?tx) @
        [ConsoleLog [Val (JStr ''   Transaction completed: User updated + Post created'')]]"
      using f by (simp add: js_defs transaction_step_def)
    moreover have "through_transaction (kind (fst (?m s)))
        ([] @ transaction_step (Resolved ?tx) @
         [ConsoleLog [Val (JStr ''   Transaction completed: User updated + Post created'')]])"
      by (rule through_transactionI) simp_all
    ultimately show ?thesis by (intro exI conjI)
  qed
qed

lemma around_transaction_step:
  assumes "emits in_sequence (block ms)"
  shows "emits around_transaction
     (block
       (console_log [Val (JStr ''\<newline>8. TRANSACTION'')] #
        console_log [Val (JStr ''-------------'')] #
        bnd (pending transaction_user_update)
         (\<lambda>p1.
        bnd (pending transaction_post_create)
         (\<lambda>p2.
        bnd (await (Batch [p1, p2]) (transaction prisma [p1, p2]))
         (\<lambda>results.
          console_log [Val (JStr ''   Transaction completed: User updated + Post created'')]))) #
        ms))"
proof -
  have "emits around_transaction (bnd
     (seq (console_log [Val (JStr ''\<newline>8. TRANSACTION'')])
     (seq (console_log [Val (JStr ''-------------'')])
       (bnd (pending transaction_user_update)
         (\<lambda>p1.
       bnd (pending transaction_post_create)
         (\<lambda>p2.
       bnd (await (Batch [p1, p2]) (transaction prisma [p1, p2]))
         (\<lambda>results.
          console_log [Val (JStr ''   Transaction completed: User updated + Post created'')]))))))
     (\<lambda>_. block ms))"
  proof (rule emits_bnd_after [OF emits_transaction_step])
    show "\<And>x::unit. emits in_sequence (block ms)" by (rule assms)
    show "\<And>r xs r' ys r''. through_transaction r xs \<Longrightarrow> in_sequence r' ys \<Longrightarrow>
        around_transaction r'' (xs @ ys)"
      using through_then_sequence unfolding around_transaction_def by blast
    show "\<And>r xs r'. through_transaction r xs \<Longrightarrow> around_transaction r' xs"
      by (simp add: around_transaction_def through_transaction_def)
  qed
  then show ?thesis by (simp add: seq_def bnd_assoc)
qed

lemma around_block_Cons:
  assumes "emits before_transaction m" and "emits around_transaction (block ms)"
  shows "emits around_transaction (block (m # ms))"
  unfolding block.simps seq_def
proof (rule emits_bnd_after [OF assms(1)])
  show "\<And>x::unit. emits around_transaction (block ms)" by (rule assms(2))
  show "\<And>r xs r' ys r''. before_transaction r xs \<Longrightarrow> around_transaction r' ys \<Longrightarrow>
      around_transaction r'' (xs @ ys)"
    by (rule before_then_around)
  show "\<And>r xs r'. before_transaction r xs \<Longrightarrow> around_transaction r' xs"
    by (simp add: around_transaction_def before_transaction_def)
qed

lemma runAllExamples_around_transaction: "emits around_transaction (runAllExamples prisma now)"
  unfolding runAllExamples_def call_defs
  by (intro around_transaction_step around_block_Cons sequence_intros
      composable_before_transaction trace_only_before_transaction) simp_all

lemma trace_only_around_transaction: "trace_only around_transaction"
  by (simp add: trace_only_def around_transaction_def before_transaction_def
      through_transaction_def)

lemma advanced_around_transaction: "emits around_transaction (advanced_script prisma now)"
  unfolding advanced_script_def
proof (rule emits_promise_finally_after)
  show "emits around_transaction
     (promise_catch (call_fn (runAllExamples prisma now)) (\<lambda>e. console_error [Val e]))"
  proof (rule emits_promise_catch_after)
    show "emits around_transaction (call_fn (runAllExamples prisma now))"
      by (rule emits_call_fn [OF trace_only_around_transaction
            runAllExamples_around_transaction])
    show "\<And>e. emits before_transaction (call_fn (console_error [Val e]))"
      by (intro emits_call_fn trace_only_before_transaction emits_console_error) simp
    show "\<And>r xs r' ys r''. around_transaction r xs \<Longrightarrow> before_transaction r' ys \<Longrightarrow>
        around_transaction r'' (xs @ ys)"
      by (rule around_then_before)
    show "\<And>r xs r'. around_transaction r xs \<Longrightarrow> around_transaction r' xs"
      using trace_only_around_transaction unfolding trace_only_def by blast
  qed
  show "emits before_transaction (call_fn (client_disconnect prisma))"
    unfolding client_disconnect_def
    by (intro emits_call_fn trace_only_before_transaction emits_await) simp_all
  show "\<And>r xs r' ys r''. around_transaction r xs \<Longrightarrow> before_transaction r' ys \<Longrightarrow>
      around_transaction r'' (xs @ ys)"
    by (rule around_then_before)
  show "\<And>r xs r'. around_transaction r xs \<Longrightarrow> around_transaction r' xs"
    using trace_only_around_transaction unfolding trace_only_def by blast
qed

text \<open>
  Claim C4, as stated: in every script each ORM call is awaited before the next one
  begins. In step 8 of the advanced examples \<open>prisma.user.update\<close> and
  \<open>prisma.post.create\<close> are called one after the other without \<open>await\<close>, before
  \<open>$transaction\<close> is called.
\<close>

theorem advanced_not_sequential: "\<not> sequential (events (advanced_script (stub_client None) 0) 0)"
  by (simp add: advanced_script_def runAllExamples_def transaction_user_update_def
      transaction_post_create_def js_defs call_defs stub_defs)

text \<open>
  Claim C4, amended: in queries.ts, example-queries.ts and the verification script every
  ORM call is awaited until it settles before the next call is made or anything is
  printed. In the advanced examples the same holds outside step 8: a run that ends before
  step 8 (it never prints the heading \<open>8. TRANSACTION\<close>) is sequential throughout; a
  run that gets to step 8 is sequential before the heading of step 8 and again after step
  8, and step 8 itself, right after its two heading lines, calls \<open>prisma.user.update\<close>
  and \<open>prisma.post.create\<close> one directly after the other without \<open>await\<close>, then
  at once \<open>$transaction\<close> on exactly these two, and awaits \<open>$transaction\<close> until
  it settles before anything else is done.
\<close>

theorem calls_in_sequence:
  "sequential (events (queries_script prisma) w) \<and>
   sequential (events (example_queries_script prisma) w) \<and>
   sequential (events (verify_script prisma) w) \<and>
   (sequential (events (advanced_script prisma now) w) \<and>
      ConsoleLog [Val (JStr ''\<newline>8. TRANSACTION'')]
        \<notin> set (events (advanced_script prisma now) w) \<or>
    (\<exists>before settled after.
       events (advanced_script prisma now) w =
         before @
         [ConsoleLog [Val (JStr ''\<newline>8. TRANSACTION'')],
          ConsoleLog [Val (JStr ''-------------'')],
          Invoke transaction_user_update,
          Invoke transaction_post_create,
          Invoke (Batch [transaction_user_update, transaction_post_create]),
          settled] @
         after \<and>
       sequential before \<and> sequential after \<and>
       settles (Batch [transaction_user_update, transaction_post_create]) settled))"
  using emits_run [OF queries_in_sequence, of prisma w]
    emits_run [OF example_queries_in_sequence, of prisma w]
    emits_run [OF verify_in_sequence, of prisma w]
    emits_run [OF advanced_around_transaction, of prisma now w]
  unfolding in_sequence_def around_transaction_def before_transaction_def
    through_transaction_def transaction_step_def
  by (intro conjI)

section \<open>The round trip of example-queries.ts\<close>

text \<open>What the modelled database does at the calls of example-queries.ts.\<close>

lemma no_such_email:
  assumes "em \<notin> set (map user_email us)"
  shows "filter (\<lambda>u. user_email u = em) us = []"
    and "filter (\<lambda>u. user_email u \<noteq> em) us = us"
    and "map (\<lambda>v. if user_email v = em then f v else v) us = us"
  using assms by (induction us) auto

lemma db_reads:
  "findMany (user (db_client ra)) a d = (Inr (db_user_rows a d), d)"
  "findUnique (user (db_client ra)) a d =
     (Inr (case db_user_rows a d of [] \<Rightarrow> JNull | r # rs \<Rightarrow> r), d)"
  "count (user (db_client ra)) a d = (Inr (int (length (db_user_rows a d))), d)"
  "findMany (post (db_client ra)) a d = (Inr (db_post_rows a d), d)"
  "count (post (db_client ra)) a d = (Inr (int (length (db_post_rows a d))), d)"
  "disconnect (db_client ra) d = (Inr (), d)"
  by (simp_all add: db_client_def db_user_def db_post_def)

lemma db_writes:
  "create (user (db_client ra)) = db_user_create"
  "update (user (db_client ra)) = db_user_update"
  "delete (user (db_client ra)) = db_user_delete ra"
  by (simp_all add: db_client_def db_user_def)

lemma create_charlie:
  assumes "''charlie@prisma.io'' \<notin> set (map user_email (users db))"
  shows "\<exists>row d1.
     db_user_create
       (JObj [(''data'', JObj
          [(''email'', JStr ''charlie@prisma.io''),
           (''name'', JStr ''Charlie''),
           (''posts'', JObj [(''create'', JObj
              [(''title'', JStr ''Charlie introduction''),
               (''content'', JStr ''Hi everyone!''),
               (''published'', JBool True)])])])]) db = (Inr row, d1) \<and>
     row = user_json
       \<lparr>user_id = next_user_id db, user_email = ''charlie@prisma.io'',
         user_name = Some ''Charlie'', user_createdAt = clock db\<rparr> \<and>
     users d1 = users db @
       [\<lparr>user_id = next_user_id db, user_email = ''charlie@prisma.io'',
         user_name = Some ''Charlie'', user_createdAt = clock db\<rparr>] \<and>
     posts d1 = posts db @
       [\<lparr>post_id = next_post_id db, post_title = ''Charlie introduction'',
         post_content = Some ''Hi everyone!'', post_published = True,
         post_createdAt = clock db, post_authorId = next_user_id db\<rparr>]"
  using assms by (simp add: db_user_create_def arg_field_def new_post_def Let_def)

lemma update_charlie:
  assumes "users d1 = us @ [c]" and "user_email c = ''charlie@prisma.io''"
    and "''charlie@prisma.io'' \<notin> set (map user_email us)"
  shows "\<exists>row d2.
     db_user_update
       (JObj [(''where'', JObj [(''email'', JStr ''charlie@prisma.io'')]),
              (''data'', JObj [(''name'', JStr ''Charles'')])]) d1 = (Inr row, d2) \<and>
     users d2 = us @ [c\<lparr>user_name := Some ''Charles''\<rparr>] \<and> posts d2 = posts d1"
  using assms by (simp add: db_user_update_def arg_field_def no_such_email Let_def)

lemma delete_charlie:
  assumes "users d2 = us @ [c]" and "user_email c = ''charlie@prisma.io''"
    and "''charlie@prisma.io'' \<notin> set (map user_email us)"
    and "user_id c \<in> set (map post_authorId (posts d2))"
    and "db_user_delete ra
       (JObj [(''where'', JObj [(''email'', JStr ''charlie@prisma.io'')])]) d2 = (r, d3)"
  shows "case r of
           Inl e \<Rightarrow>
             ra = Restrict \<and> d3 = d2 \<and>
             e = known_request_error ''Foreign key constraint violated''
         | Inr row \<Rightarrow> ra = Cascade \<and> users d3 = us"
  using assms
  by (cases ra) (auto simp: db_user_delete_def arg_field_def no_such_email split: if_splits)

lemma queries_seeds_database:
  "final_world (queries_script (db_client ra)) empty_database = seeded_database"
  by (simp add: queries_script_def queries_main_def js_defs call_defs db_client_def db_user_def
      db_post_def db_user_create_def db_user_rows_def db_post_rows_def arg_field_def
      new_post_def Let_def empty_database_def seeded_database_def)

lemma db_user_rows_all: "db_user_rows JUndefined d = map user_json (users d)"
  by (simp add: db_user_rows_def arg_field_def)

text \<open>
  The two runs of example-queries.ts that get as far as the delete, for any client: every
  call before it resolves, and the delete resolves or rejects.
\<close>

lemma example_queries_delete_resolved:
  assumes
    c: "create (user prisma)
       (JObj [(''data'', JObj
          [(''email'', JStr ''charlie@prisma.io''),
           (''name'', JStr ''Charlie''),
           (''posts'', JObj [(''create'', JObj
              [(''title'', JStr ''Charlie introduction''),
               (''content'', JStr ''Hi everyone!''),
               (''published'', JBool True)])])])]) w0 = (Inr r1, w1)"
    and f1: "findMany (user prisma) JUndefined w1 = (Inr r2, w2)"
    and f2: "findUnique (user prisma)
       (JObj [(''where'', JObj [(''email'', JStr ''alice@prisma.io'')]),
              (''include'', JObj [(''posts'', JBool True)])]) w2 = (Inr r3, w3)"
    and f3: "findMany (post prisma)
       (JObj [(''where'', JObj [(''published'', JBool True)]),
              (''include'', JObj [(''author'', JBool True)])]) w3 = (Inr r4, w4)"
    and u: "update (user prisma)
       (JObj [(''where'', JObj [(''email'', JStr ''charlie@prisma.io'')]),
              (''data'', JObj [(''name'', JStr ''Charles'')])]) w4 = (Inr r5, w5)"
    and d: "delete (user prisma)
       (JObj [(''where'', JObj [(''email'', JStr ''charlie@prisma.io'')])]) w5 = (Inr r6, w6)"
    and c1: "count (user prisma) JUndefined w6 = (Inr n1, w7)"
    and c2: "count (post prisma) JUndefined w7 = (Inr n2, w8)"
    and c3: "count (post prisma) (JObj [(''where'', JObj [(''published'', JBool True)])]) w8 =
       (Inr n3, w9)"
    and dis: "disconnect prisma w9 = (Inr v, w10)"
  shows "take 9 (events (example_queries_script prisma) w0) =
           [ConsoleLog [Val (JStr ''=== PRISMA QUERY EXAMPLES ===\<newline>'')],
            ConsoleLog [Val (JStr ''1. CREATE - Adding new user and post...'')],
            Invoke
              (Call User Create
                 (JObj [(''data'', JObj
                    [(''email'', JStr ''charlie@prisma.io''),
                     (''name'', JStr ''Charlie''),
                     (''posts'', JObj [(''create'', JObj
                        [(''title'', JStr ''Charlie introduction''),
                         (''content'', JStr ''Hi everyone!''),
                         (''published'', JBool True)])])])])),
            Resolved
              (Call User Create
                 (JObj [(''data'', JObj
                    [(''email'', JStr ''charlie@prisma.io''),
                     (''name'', JStr ''Charlie''),
                     (''posts'', JObj [(''create'', JObj
                        [(''title'', JStr ''Charlie introduction''),
                         (''content'', JStr ''Hi everyone!''),
                         (''published'', JBool True)])])])])),
            ConsoleLog [Val (JStr ''   Created:''), Val r1],
            ConsoleLog [Val (JStr ''\<newline>2. READ - Finding users...'')],
            Invoke (Call User FindMany JUndefined),
            Resolved (Call User FindMany JUndefined),
            ConsoleLog [Val (JStr ''   All users:''), Val (JArr r2)]] \<and>
         Resolved (Call User Delete
           (JObj [(''where'', JObj [(''email'', JStr ''charlie@prisma.io'')])]))
           \<in> set (events (example_queries_script prisma) w0) \<and>
         ConsoleLog [Template [Lit ''   Users: '', Sub (JNum n1)]]
           \<in> set (events (example_queries_script prisma) w0) \<and>
         outcome (example_queries_script prisma) w0 = Normal () \<and>
         final_world (example_queries_script prisma) w0 = w10"
  using assms
  by (simp add: example_queries_script_def example_queries_main_def js_defs call_defs)

lemma example_queries_delete_rejected:
  assumes
    c: "create (user prisma)
       (JObj [(''data'', JObj
          [(''email'', JStr ''charlie@prisma.io''),
           (''name'', JStr ''Charlie''),
           (''posts'', JObj [(''create'', JObj
              [(''title'', JStr ''Charlie introduction''),
               (''content'', JStr ''Hi everyone!''),
               (''published'', JBool True)])])])]) w0 = (Inr r1, w1)"
    and f1: "findMany (user prisma) JUndefined w1 = (Inr r2, w2)"
    and f2: "findUnique (user prisma)
       (JObj [(''where'', JObj [(''email'', JStr ''alice@prisma.io'')]),
              (''include'', JObj [(''posts'', JBool True)])]) w2 = (Inr r3, w3)"
    and f3: "findMany (post prisma)
       (JObj [(''where'', JObj [(''published'', JBool True)]),
              (''include'', JObj [(''author'', JBool True)])]) w3 = (Inr r4, w4)"
    and u: "update (user prisma)
       (JObj [(''where'', JObj [(''email'', JStr ''charlie@prisma.io'')]),
              (''data'', JObj [(''name'', JStr ''Charles'')])]) w4 = (Inr r5, w5)"
    and d: "delete (user prisma)
       (JObj [(''where'', JObj [(''email'', JStr ''charlie@prisma.io'')])]) w5 = (Inl e, w6)"
  shows "take 9 (events (example_queries_script prisma) w0) =
           [ConsoleLog [Val (JStr ''=== PRISMA QUERY EXAMPLES ===\<newline>'')],
            ConsoleLog [Val (JStr ''1. CREATE - Adding new user and post...'')],
            Invoke
              (Call User Create
                 (JObj [(''data'', JObj
                    [(''email'', JStr ''charlie@prisma.io''),
                     (''name'', JStr ''Charlie''),
                     (''posts'', JObj [(''create'', JObj
                        [(''title'', JStr ''Charlie introduction''),
                         (''content'', JStr ''Hi everyone!''),
                         (''published'', JBool True)])])])])),
            Resolved
              (Call User Create
                 (JObj [(''data'', JObj
                    [(''email'', JStr ''charlie@prisma.io''),
                     (''name'', JStr ''Charlie''),
                     (''posts'', JObj [(''create'', JObj
                        [(''title'', JStr ''Charlie introduction''),
                         (''content'', JStr ''Hi everyone!''),
                         (''published'', JBool True)])])])])),
            ConsoleLog [Val (JStr ''   Created:''), Val r1],
            ConsoleLog [Val (JStr ''\<newline>2. READ - Finding users...'')],
            Invoke (Call User FindMany JUndefined),
            Resolved (Call User FindMany JUndefined),
            ConsoleLog [Val (JStr ''   All users:''), Val (JArr r2)]] \<and>
         Rejected (Call User Delete
           (JObj [(''where'', JObj [(''email'', JStr ''charlie@prisma.io'')])])) e
           \<in> set (events (example_queries_script prisma) w0) \<and>
         outcome (example_queries_script prisma) w0 = Halt 1 \<and>
         final_world (example_queries_script prisma) w0 = w6"
  using assms
  by (simp add: example_queries_script_def example_queries_main_def js_defs call_defs)

lemma example_queries_on_database:
  assumes pre: "''charlie@prisma.io'' \<notin> set (map user_email (users db))"
  shows
    "take 9 (events (example_queries_script (db_client ra)) db) =
       [ConsoleLog [Val (JStr ''=== PRISMA QUERY EXAMPLES ===\<newline>'')],
        ConsoleLog [Val (JStr ''1. CREATE - Adding new user and post...'')],
        Invoke
          (Call User Create
             (JObj [(''data'', JObj
                [(''email'', JStr ''charlie@prisma.io''),
                 (''name'', JStr ''Charlie''),
                 (''posts'', JObj [(''create'', JObj
                    [(''title'', JStr ''Charlie introduction''),
                     (''content'', JStr ''Hi everyone!''),
                     (''published'', JBool True)])])])])),
        Resolved
          (Call User Create
             (JObj [(''data'', JObj
                [(''email'', JStr ''charlie@prisma.io''),
                 (''name'', JStr ''Charlie''),
                 (''posts'', JObj [(''create'', JObj
                    [(''title'', JStr ''Charlie introduction''),
                     (''content'', JStr ''Hi everyone!''),
                     (''published'', JBool True)])])])])),
        ConsoleLog
          [Val (JStr ''   Created:''),
           Val (user_json
             \<lparr>user_id = next_user_id db, user_email = ''charlie@prisma.io'',
               user_name = Some ''Charlie'', user_createdAt = clock db\<rparr>)],
        ConsoleLog [Val (JStr ''\<newline>2. READ - Finding users...'')],
        Invoke (Call User FindMany JUndefined),
        Resolved (Call User FindMany JUndefined),
        ConsoleLog
          [Val (JStr ''   All users:''),
           Val (JArr (map user_json
             (users db @
                [\<lparr>user_id = next_user_id db, user_email = ''charlie@prisma.io'',
                  user_name = Some ''Charlie'', user_createdAt = clock db\<rparr>])))]] \<and>
     (ra = Cascade \<and>
      Resolved (Call User Delete
        (JObj [(''where'', JObj [(''email'', JStr ''charlie@prisma.io'')])]))
      \<in> set (events (example_queries_script (db_client ra)) db) \<and>
      ConsoleLog [Template [Lit ''   Users: '', Sub (JNum (int (length (users db))))]]
      \<in> set (events (example_queries_script (db_client ra)) db) \<and>
      outcome (example_queries_script (db_client ra)) db = Normal () \<and>
      users (final_world (example_queries_script (db_client ra)) db) = users db \<or>
      ra = Restrict \<and>
      Rejected (Call User Delete
        (JObj [(''where'', JObj [(''email'', JStr ''charlie@prisma.io'')])]))
        (known_request_error ''Foreign key constraint violated'')
      \<in> set (events (example_queries_script (db_client ra)) db) \<and>
      outcome (example_queries_script (db_client ra)) db = Halt 1 \<and>
      users (final_world (example_queries_script (db_client ra)) db) =
        users db @
          [\<lparr>user_id = next_user_id db, user_email = ''charlie@prisma.io'',
            user_name = Some ''Charles'', user_createdAt = clock db\<rparr>])"
proof -
  from create_charlie [OF pre] obtain row1 d1 where
    c: "db_user_create
       (JObj [(''data'', JObj
          [(''email'', JStr ''charlie@prisma.io''),
           (''name'', JStr ''Charlie''),
           (''posts'', JObj [(''create'', JObj
              [(''title'', JStr ''Charlie introduction''),
               (''content'', JStr ''Hi everyone!''),
               (''published'', JBool True)])])])]) db = (Inr row1, d1)"
    and r1: "row1 = user_json
       \<lparr>user_id = next_user_id db, user_email = ''charlie@prisma.io'',
         user_name = Some ''Charlie'', user_createdAt = clock db\<rparr>"
    and u1: "users d1 = users db @
       [\<lparr>user_id = next_user_id db, user_email = ''charlie@prisma.io'',
         user_name = Some ''Charlie'', user_createdAt = clock db\<rparr>]"
    and p1: "posts d1 = posts db @
       [\<lparr>post_id = next_post_id db, post_title = ''Charlie introduction'',
         post_content = Some ''Hi everyone!'', post_published = True,
         post_createdAt = clock db, post_authorId = next_user_id db\<rparr>]"
    by blast
  from update_charlie [OF u1 _ pre] obtain row2 d2 where
    u: "db_user_update
       (JObj [(''where'', JObj [(''email'', JStr ''charlie@prisma.io'')]),
              (''data'', JObj [(''name'', JStr ''Charles'')])]) d1 = (Inr row2, d2)"
    and u2: "users d2 = users db @
       [\<lparr>user_id = next_user_id db, user_email = ''charlie@prisma.io'',
         user_name = Some ''Charles'', user_createdAt = clock db\<rparr>]"
    and p2: "posts d2 = posts d1"
    by auto
  obtain r d3 where
    d: "db_user_delete ra
       (JObj [(''where'', JObj [(''email'', JStr ''charlie@prisma.io'')])]) d2 = (r, d3)"
    by (cases "db_user_delete ra
       (JObj [(''where'', JObj [(''email'', JStr ''charlie@prisma.io'')])]) d2")
  from delete_charlie [OF u2 _ pre _ d]
  have r: "case r of
             Inl e \<Rightarrow>
               ra = Restrict \<and> d3 = d2 \<and>
               e = known_request_error ''Foreign key constraint violated''
           | Inr row \<Rightarrow> ra = Cascade \<and> users d3 = users db"
    by (simp add: p1 p2)
  have all: "findMany (user (db_client ra)) JUndefined d1 =
      (Inr (map user_json
        (users db @
           [\<lparr>user_id = next_user_id db, user_email = ''charlie@prisma.io'',
             user_name = Some ''Charlie'', user_createdAt = clock db\<rparr>])), d1)"
    by (simp only: db_reads(1) db_user_rows_all u1)
  note steps = c [unfolded r1, folded db_writes(1) [of ra]] all db_reads(2) db_reads(4)
    u [folded db_writes(2) [of ra]]
  show ?thesis
  proof (cases r)
    case (Inl e)
    from example_queries_delete_rejected
      [OF steps d [unfolded Inl, folded db_writes(3) [of ra]]]
    show ?thesis using r Inl u2 by simp
  next
    case (Inr row)
    have n: "count (user (db_client ra)) JUndefined d3 = (Inr (int (length (users db))), d3)"
      using r Inr by (simp add: db_reads(3) db_user_rows_all)
    from example_queries_delete_resolved
      [OF steps d [unfolded Inr, folded db_writes(3) [of ra]]
        n db_reads(5) db_reads(5) db_reads(6)]
    show ?thesis using r Inr by simp
  qed
qed

text \<open>
  Claim C10, as stated: when no user has the email \<open>charlie@prisma.io\<close> before the run,
  the users after the delete step are those before the create step. On the database left
  by queries.ts, with a schema that refuses to delete a user who still owns posts: the
  user created owns a post, the delete is refused, the script exits with status 1 and the
  renamed user stays.
\<close>

theorem example_queries_restricted_delete:
  "''charlie@prisma.io'' \<notin> set (map user_email (users seeded_database)) \<and>
   outcome (example_queries_script (db_client Restrict)) seeded_database = Halt 1 \<and>
   set (users (final_world (example_queries_script (db_client Restrict)) seeded_database)) \<noteq>
     set (users seeded_database)"
proof -
  have pre: "''charlie@prisma.io'' \<notin> set (map user_email (users seeded_database))"
    by (simp add: seeded_database_def)
  from example_queries_on_database [OF pre, of Restrict]
  have "outcome (example_queries_script (db_client Restrict)) seeded_database = Halt 1"
    and "users (final_world (example_queries_script (db_client Restrict)) seeded_database) =
      users seeded_database @
        [\<lparr>user_id = next_user_id seeded_database, user_email = ''charlie@prisma.io'',
          user_name = Some ''Charles'', user_createdAt = clock seeded_database\<rparr>]"
    by simp_all
  moreover have "\<lparr>user_id = next_user_id seeded_database, user_email = ''charlie@prisma.io'',
      user_name = Some ''Charles'', user_createdAt = clock seeded_database\<rparr>
      \<notin> set (users seeded_database)"
    by (simp add: seeded_database_def)
  ultimately show ?thesis using pre by auto
qed

text \<open>
  Claim C10, amended: example-queries.ts creates a user with the email
  \<open>charlie@prisma.io\<close> and later deletes the user with that email. On the modelled
  database, with nothing else writing to it, when no user had that email before the run:
  the run begins with the create step, which resolves with the new user, and the users
  that the script reads and prints next are those from before the run followed by the new
  user. When deleting a user deletes its posts too, the delete step resolves, the script
  runs to its end, the number of users it prints is the number from before the run, and
  the users after the run are exactly those from before the create step. When a user who
  owns posts cannot be deleted, the delete step is refused, the script exits with status 1
  and the users after the run are those from before it followed by the new user, renamed.
\<close>

theorem example_queries_round_trip:
  assumes "''charlie@prisma.io'' \<notin> set (map user_email (users db))"
  shows
    "take 9 (events (example_queries_script (db_client ra)) db) =
       [ConsoleLog [Val (JStr ''=== PRISMA QUERY EXAMPLES ===\<newline>'')],
        ConsoleLog [Val (JStr ''1. CREATE - Adding new user and post...'')],
        Invoke
          (Call User Create
             (JObj [(''data'', JObj
                [(''email'', JStr ''charlie@prisma.io''),
                 (''name'', JStr ''Charlie''),
                 (''posts'', JObj [(''create'', JObj
                    [(''title'', JStr ''Charlie introduction''),
                     (''content'', JStr ''Hi everyone!''),
                     (''published'', JBool True)])])])])),
        Resolved
          (Call User Create
             (JObj [(''data'', JObj
                [(''email'', JStr ''charlie@prisma.io''),
                 (''name'', JStr ''Charlie''),
                 (''posts'', JObj [(''create'', JObj
                    [(''title'', JStr ''Charlie introduction''),
                     (''content'', JStr ''Hi everyone!''),
                     (''published'', JBool True)])])])])),
        ConsoleLog
          [Val (JStr ''   Created:''),
           Val (user_json
             \<lparr>user_id = next_user_id db, user_email = ''charlie@prisma.io'',
               user_name = Some ''Charlie'', user_createdAt = clock db\<rparr>)],
        ConsoleLog [Val (JStr ''\<newline>2. READ - Finding users...'')],
        Invoke (Call User FindMany JUndefined),
        Resolved (Call User FindMany JUndefined),
        ConsoleLog
          [Val (JStr ''   All users:''),
           Val (JArr (map user_json
             (users db @
                [\<lparr>user_id = next_user_id db, user_email = ''charlie@prisma.io'',
                  user_name = Some ''Charlie'', user_createdAt = clock db\<rparr>])))]] \<and>
     (case ra of
        Cascade \<Rightarrow>
          Resolved (Call User Delete
            (JObj [(''where'', JObj [(''email'', JStr ''charlie@prisma.io'')])]))
          \<in> set (events (example_queries_script (db_client ra)) db) \<and>
          ConsoleLog [Template [Lit ''   Users: '', Sub (JNum (int (length (users db))))]]
          \<in> set (events (example_queries_script (db_client ra)) db) \<and>
          outcome (example_queries_script (db_client ra)) db = Normal () \<and>
          users (final_world (example_queries_script (db_client ra)) db) = users db
      | Restrict \<Rightarrow>
          Rejected (Call User Delete
            (JObj [(''where'', JObj [(''email'', JStr ''charlie@prisma.io'')])]))
            (known_request_error ''Foreign key constraint violated'')
          \<in> set (events (example_queries_script (db_client ra)) db) \<and>
          outcome (example_queries_script (db_client ra)) db = Halt 1 \<and>
          users (final_world (example_queries_script (db_client ra)) db) =
            users db @
              [\<lparr>user_id = next_user_id db, user_email = ''charlie@prisma.io'',
                user_name = Some ''Charles'', user_createdAt = clock db\<rparr>])"
  using example_queries_on_database [OF assms, of ra] by (cases ra) simp_all

text \<open>The round trip on the database left by queries.ts, with cascading deletion.\<close>

theorem example_queries_round_trip_witness:
  "''charlie@prisma.io'' \<notin> set (map user_email (users seeded_database)) \<and>
   take 9 (events (example_queries_script (db_client Cascade)) seeded_database) =
     [ConsoleLog [Val (JStr ''=== PRISMA QUERY EXAMPLES ===\<newline>'')],
      ConsoleLog [Val (JStr ''1. CREATE - Adding new user and post...'')],
      Invoke
        (Call User Create
           (JObj [(''data'', JObj
              [(''email'', JStr ''charlie@prisma.io''),
               (''name'', JStr ''Charlie''),
               (''posts'', JObj [(''create'', JObj
                  [(''title'', JStr ''Charlie introduction''),
                   (''content'', JStr ''Hi everyone!''),
                   (''published'', JBool True)])])])])),
      Resolved
        (Call User Create
           (JObj [(''data'', JObj
              [(''email'', JStr ''charlie@prisma.io''),
               (''name'', JStr ''Charlie''),
               (''posts'', JObj [(''create'', JObj
                  [(''title'', JStr ''Charlie introduction''),
                   (''content'', JStr ''Hi everyone!''),
                   (''published'', JBool True)])])])])),
      ConsoleLog
        [Val (JStr ''   Created:''),
         Val (user_json
           \<lparr>user_id = next_user_id seeded_database, user_email = ''charlie@prisma.io'',
             user_name = Some ''Charlie'', user_createdAt = clock seeded_database\<rparr>)],
      ConsoleLog [Val (JStr ''\<newline>2. READ - Finding users...'')],
      Invoke (Call User FindMany JUndefined),
      Resolved (Call User FindMany JUndefined),
      ConsoleLog
        [Val (JStr ''   All users:''),
         Val (JArr (map user_json
           (users seeded_database @
              [\<lparr>user_id = next_user_id seeded_database, user_email = ''charlie@prisma.io'',
                user_name = Some ''Charlie'', user_createdAt = clock seeded_database\<rparr>])))]] \<and>
   Resolved (Call User Delete
     (JObj [(''where'', JObj [(''email'', JStr ''charlie@prisma.io'')])]))
   \<in> set (events (example_queries_script (db_client Cascade)) seeded_database) \<and>
   ConsoleLog [Template [Lit ''   Users: '', Sub (JNum (int (length (users seeded_database))))]]
   \<in> set (events (example_queries_script (db_client Cascade)) seeded_database) \<and>
   outcome (example_queries_script (db_client Cascade)) seeded_database = Normal () \<and>
   users (final_world (example_queries_script (db_client Cascade)) seeded_database) =
     users seeded_database"
proof -
  have pre: "''charlie@prisma.io'' \<notin> set (map user_email (users seeded_database))"
    by (simp add: seeded_database_def)
  from example_queries_round_trip [OF pre, of Cascade] pre show ?thesis by simp
qed

end
